theory Spec2Isabelle
  imports Complex_Main
begin

section \<open>Data model (src/src/App.tsx)\<close>

text \<open>
  \<^verbatim>\<open>interface Recipient { address: string; amount: string; }\<close>
\<close>

record Recipient =
  address :: string
  amount :: string

text \<open>
  \<^verbatim>\<open>const MAX_BATCH_SIZE = 100; const MAX_TX_SIZE_SOL = 8; const MAX_TX_SIZE_SPL = 5;
  const SOL_MINT = "SOL";\<close>
\<close>

definition MAX_BATCH_SIZE :: nat where
  "MAX_BATCH_SIZE = 100"

definition MAX_TX_SIZE_SOL :: nat where
  "MAX_TX_SIZE_SOL = 8"

definition MAX_TX_SIZE_SPL :: nat where
  "MAX_TX_SIZE_SPL = 5"

definition SOL_MINT :: string where
  "SOL_MINT = ''SOL''"

text \<open>The token program id that \<^verbatim>\<open>TOKEN_PROGRAM_ID\<close> of the token library stands for.\<close>

definition TOKEN_PROGRAM_ID :: string where
  "TOKEN_PROGRAM_ID = ''TokenkegQfeZyiNwAJbNbGKPFXCWuBvf9Ss623VQ5DA''"

text \<open>\<^verbatim>\<open>ALCHEMY_CONFIG.enabled\<close>\<close>

definition ALCHEMY_enabled :: bool where
  "ALCHEMY_enabled = True"

datatype Mode = SAME | DIFF

section \<open>Chunking (buildMultiSendTransaction, App.tsx 221-224; solanaUtils.ts 87-90)\<close>

text \<open>
  \<^verbatim>\<open>xs.slice(start, end)\<close> for indices \<open>0 \<le> start \<le> end\<close>: the elements at positions
  \<open>start, ..., min end (length xs) - 1\<close>.
\<close>

definition slice :: "'a list \<Rightarrow> nat \<Rightarrow> nat \<Rightarrow> 'a list" where
  "slice xs start end = take (end - start) (drop start xs)"

text \<open>
  \<^verbatim>\<open>
  const chunks: Recipient[][] = [];
  for (let i = 0; i < recipients.length; i += chunkSize) {
    chunks.push(recipients.slice(i, i + chunkSize));
  }
  \<close>
  With \<open>chunkSize = 0\<close> and a non-empty list the loop never ends; the model returns
  \<open>None\<close> for a run that does not return.
\<close>

partial_function (option) chunk_loop ::
  "'a list \<Rightarrow> nat \<Rightarrow> nat \<Rightarrow> 'a list list \<Rightarrow> 'a list list option" where
  "chunk_loop recipients chunkSize i chunks =
     (if i < length recipients
      then chunk_loop recipients chunkSize (i + chunkSize)
             (chunks @ [slice recipients i (i + chunkSize)])
      else Some chunks)"

declare chunk_loop.simps [code]

definition chunk_recipients :: "'a list \<Rightarrow> nat \<Rightarrow> 'a list list option" where
  "chunk_recipients recipients chunkSize = chunk_loop recipients chunkSize 0 []"

section \<open>Recipient parsing (handleParse, App.tsx 597-629)\<close>

text \<open>
  Text is a list of 8-bit characters. The white space of the regular expression class
  \<^verbatim>\<open>\s\<close> and of \<^verbatim>\<open>String.prototype.trim\<close> in that range: tab, line feed, vertical tab,
  form feed, carriage return, space and no-break space.
\<close>

definition is_space :: "char \<Rightarrow> bool" where
  "is_space c \<longleftrightarrow>
     c \<in> {CHR 0x09, CHR 0x0A, CHR 0x0B, CHR 0x0C, CHR 0x0D, CHR 0x20, CHR 0xA0}"

text \<open>The separator class \<^verbatim>\<open>[\n\s,]\<close>.\<close>

definition is_sep :: "char \<Rightarrow> bool" where
  "is_sep c \<longleftrightarrow> c = CHR 0x0A \<or> is_space c \<or> c = CHR '',''"

definition js_trim :: "string \<Rightarrow> string" where
  "js_trim s = rev (dropWhile is_space (rev (dropWhile is_space s)))"

text \<open>
  \<^verbatim>\<open>text.split(/[\n\s,]+/)\<close>: every maximal run of separators ends the current piece;
  a separator run at the start or at the end of the text leaves an empty piece there, and
  the empty text splits into one empty piece. \<open>cur\<close> is the piece being read, \<open>insep\<close>
  says that the previous character was a separator.
\<close>

fun split_sep :: "string \<Rightarrow> bool \<Rightarrow> string \<Rightarrow> string list" where
  "split_sep cur insep [] = [cur]"
| "split_sep cur insep (c # cs) =
     (if is_sep c
      then (if insep then split_sep [] True cs else cur # split_sep [] True cs)
      else split_sep (cur @ [c]) False cs)"

definition js_split :: "string \<Rightarrow> string list" where
  "js_split raw = split_sep [] False raw"

text \<open>
  \<^verbatim>\<open>const tokens = text.split(/[\n\s,]+/).filter(token => token.trim() !== '');\<close>
\<close>

definition tokenize :: "string \<Rightarrow> string list" where
  "tokenize raw = filter (\<lambda>token. js_trim token \<noteq> []) (js_split raw)"

text \<open>\<^verbatim>\<open>a || '0'\<close> on strings: the empty string is falsy.\<close>

definition or_zero :: "string \<Rightarrow> string" where
  "or_zero a = (if a = [] then ''0'' else a)"

text \<open>
  \<^verbatim>\<open>tokens[i + 1]?.trim() || '0'\<close>: an index past the end reads \<^verbatim>\<open>undefined\<close>, and
  the optional call leaves it \<^verbatim>\<open>undefined\<close>.
\<close>

definition amount_at :: "string list \<Rightarrow> nat \<Rightarrow> string" where
  "amount_at tokens j = (if j < length tokens then or_zero (js_trim (tokens ! j)) else ''0'')"

text \<open>
  \<^verbatim>\<open>
  for (let i = 0; i < tokens.length; i += 2) {
    if (tokens[i]) {
      recipients.push({ address: tokens[i].trim(), amount: tokens[i + 1]?.trim() || '0' });
    }
  }
  \<close>
\<close>

function pair_loop :: "string list \<Rightarrow> nat \<Rightarrow> Recipient list \<Rightarrow> Recipient list" where
  "pair_loop tokens i recipients =
     (if i < length tokens
      then pair_loop tokens (i + 2)
             (if tokens ! i \<noteq> []
              then recipients @ [\<lparr>address = js_trim (tokens ! i), amount = amount_at tokens (i + 1)\<rparr>]
              else recipients)
      else recipients)"
  by pat_completeness auto
termination
  by (relation "measure (\<lambda>(tokens, i, recipients). length tokens - i)") auto

declare pair_loop.simps [simp del]

text \<open>
  The recipient list of \<^verbatim>\<open>handleParse\<close> before the cap is applied. In mode \<open>SAME\<close>:
  \<^verbatim>\<open>recipients.push({ address: token.trim(), amount: sameAmount || '0' })\<close> for every token.
\<close>

definition parse_recipients :: "Mode \<Rightarrow> string \<Rightarrow> string \<Rightarrow> Recipient list" where
  "parse_recipients md same raw =
     (let tokens = tokenize raw in
      case md of
        SAME \<Rightarrow> map (\<lambda>token. \<lparr>address = js_trim token, amount = or_zero same\<rparr>) tokens
      | DIFF \<Rightarrow> pair_loop tokens 0 [])"

subsection \<open>The tokenization and pairing rules as the specification words them\<close>

text \<open>
  "Tokenization splits on newlines, whitespace, and commas; empty tokens are dropped":
  every single separator character ends a piece, and the empty pieces are removed.
\<close>

fun split_each :: "string \<Rightarrow> string \<Rightarrow> string list" where
  "split_each cur [] = [cur]"
| "split_each cur (c # cs) =
     (if is_sep c then cur # split_each [] cs else split_each (cur @ [c]) cs)"

definition tokens_spec :: "string \<Rightarrow> string list" where
  "tokens_spec raw = filter (\<lambda>token. token \<noteq> []) (split_each [] raw)"

text \<open>
  "address/amount pairs read positionally from the same token stream ... a trailing
  address with no following amount token defaults to amount 0".
\<close>

fun pairs_spec :: "string list \<Rightarrow> Recipient list" where
  "pairs_spec (a # b # rest) = \<lparr>address = a, amount = b\<rparr> # pairs_spec rest"
| "pairs_spec [a] = [\<lparr>address = a, amount = ''0''\<rparr>]"
| "pairs_spec [] = []"

section \<open>The network boundary\<close>

text \<open>
  A thrown JavaScript exception. The handlers read only \<^verbatim>\<open>err.message\<close>; \<open>RangeError\<close>
  is what \<^verbatim>\<open>BigInt\<close> throws for a number that is not an integer.
\<close>

datatype error = Error string | RangeError string

fun message :: "error \<Rightarrow> string" where
  "message (Error m) = m"
| "message (RangeError m) = m"

text \<open>
  One entry of \<^verbatim>\<open>getSignatureStatuses\<close>: \<open>err\<close> is \<^verbatim>\<open>JSON.stringify(status.err)\<close> when
  \<^verbatim>\<open>status.err\<close> is set, \<open>confirmationStatus\<close> is the optional commitment level reached.
\<close>

record SignatureStatus =
  err :: "string option"
  confirmationStatus :: "string option"

text \<open>
  The value of a \<^verbatim>\<open>getSignatureStatuses\<close> response: \<open>None\<close> for a missing list, and
  \<open>None\<close> entries for signatures the node does not know yet.
\<close>

type_synonym statuses = "SignatureStatus option list option"

text \<open>
  What the run has done at the network boundary, in order: an account lookup with its
  answer (whether the account exists), a status poll and its
  response (\<open>Inl\<close> for a request that threw), a timer wait in milliseconds, the
  transactions the builder returned for an asset (\<open>Planned k cs ts\<close>: asset number, the
  numbers of instructions of its creation transactions and of its transfer transactions),
  a transaction accepted by the network (\<open>Submitted kind k i sig\<close>: batch \<open>i\<close> of asset
  \<open>k\<close> with the signature it got), and a finished confirmation wait with its result. The source keeps no such list; the model records it
  so that statements about the order of these actions can be made.
\<close>

datatype batch_kind = Creation | Transfer

record result =
  success :: bool
  error :: "string option"

datatype event =
    Checked string bool
  | Polled string "error + statuses"
  | Slept nat
  | Planned nat "nat list" "nat list"
  | Submitted batch_kind nat nat string
  | Awaited string result

text \<open>
  The state the code runs in: the outside world (network, services, wallet), the clock
  that \<^verbatim>\<open>Date.now()\<close> reads, in milliseconds, and the record of events.
\<close>

record 'w sys =
  world :: 'w
  clock :: nat
  events :: "event list"

text \<open>
  An awaited request: from the world it yields the response or the exception thrown, the
  time it took, and the world afterwards.
\<close>

type_synonym ('w, 'r) rpc = "'w \<Rightarrow> (error + 'r) \<times> nat \<times> 'w"

definition call :: "('w, 'r) rpc \<Rightarrow> 'w sys \<Rightarrow> (error + 'r) \<times> 'w sys" where
  "call f st = (case f (world st) of (r, dt, w') \<Rightarrow> (r, st\<lparr>world := w', clock := clock st + dt\<rparr>))"

text \<open>\<^verbatim>\<open>await new Promise(resolve => setTimeout(resolve, ms))\<close>\<close>

definition sleep :: "nat \<Rightarrow> 'w sys \<Rightarrow> 'w sys" where
  "sleep ms st = st\<lparr>clock := clock st + ms, events := events st @ [Slept ms]\<rparr>"

definition log_event :: "event \<Rightarrow> 'w sys \<Rightarrow> 'w sys" where
  "log_event e st = st\<lparr>events := events st @ [e]\<rparr>"

section \<open>Confirmation polling (confirmTransactionWithTimeout, App.tsx 162-201)\<close>

text \<open>
  One pass through the body of the polling loop, after the response has arrived:
  it either returns a result or goes on waiting.
  \<^verbatim>\<open>
  if (!statuses || statuses.length === 0) { sleep; continue; }
  const status = statuses[0];
  if (status === null) { sleep; continue; }
  if (status.err) return { success: false, error: `Transaction failed: ${JSON.stringify(status.err)}` };
  if (status.confirmationStatus === commitment || status.confirmationStatus === 'finalized')
    return { success: true };
  sleep;
  \<close>
  and \<^verbatim>\<open>catch (error) { sleep }\<close> for a request that threw.
\<close>

datatype poll = Pending | Done result

definition failed_result :: "string \<Rightarrow> result" where
  "failed_result j = \<lparr>success = False, error = Some (''Transaction failed: '' @ j)\<rparr>"

definition ok_result :: result where
  "ok_result = \<lparr>success = True, error = None\<rparr>"

definition timeout_result :: result where
  "timeout_result = \<lparr>success = False, error = Some ''Transaction confirmation timeout''\<rparr>"

fun poll_outcome :: "string \<Rightarrow> error + statuses \<Rightarrow> poll" where
  "poll_outcome commitment (Inl e) = Pending"
| "poll_outcome commitment (Inr None) = Pending"
| "poll_outcome commitment (Inr (Some [])) = Pending"
| "poll_outcome commitment (Inr (Some (None # rest))) = Pending"
| "poll_outcome commitment (Inr (Some (Some status # rest))) =
     (case err status of
        Some j \<Rightarrow> Done (failed_result j)
      | None \<Rightarrow>
          if confirmationStatus status = Some commitment
             \<or> confirmationStatus status = Some ''finalized''
          then Done ok_result
          else Pending)"

text \<open>
  \<^verbatim>\<open>
  while (Date.now() - startTime < timeoutMs) {
    try { const { value: statuses } = await connection.getSignatureStatuses([signature]); ... }
    catch (error: any) { await new Promise(resolve => setTimeout(resolve, 2000)); }
  }
  return { success: false, error: 'Transaction confirmation timeout' };
  \<close>
  \<open>getSignatureStatuses\<close> is the request of the connection, a parameter of the model.
  Every pass that does not return waits 2000 ms, so the loop ends.
\<close>

function confirm_loop ::
  "(string \<Rightarrow> ('w, statuses) rpc) \<Rightarrow> string \<Rightarrow> string \<Rightarrow> nat \<Rightarrow> nat \<Rightarrow> 'w sys
     \<Rightarrow> result \<times> 'w sys" where
  "confirm_loop getSignatureStatuses signature commitment timeoutMs startTime st =
     (if clock st - startTime < timeoutMs
      then
        (let (r, st1) = call (getSignatureStatuses signature) st;
             st2 = log_event (Polled signature r) st1
         in case poll_outcome commitment r of
              Done res \<Rightarrow> (res, st2)
            | Pending \<Rightarrow>
                confirm_loop getSignatureStatuses signature commitment timeoutMs startTime
                  (sleep 2000 st2))
      else (timeout_result, st))"
  by pat_completeness auto
termination
proof (relation "measure (\<lambda>(g, s, c, timeoutMs, startTime, st). startTime + timeoutMs - clock st)", goal_cases)
  case 1
  show ?case by simp
next
  case (2 getSignatureStatuses signature commitment timeoutMs startTime st x r st1 st2)
  then have "clock st \<le> clock st2"
    by (auto simp: call_def log_event_def split: prod.splits)
  then show ?case using 2 by (simp add: sleep_def)
qed

declare confirm_loop.simps [simp del]

definition confirmTransactionWithTimeout ::
  "(string \<Rightarrow> ('w, statuses) rpc) \<Rightarrow> string \<Rightarrow> string \<Rightarrow> nat \<Rightarrow> 'w sys \<Rightarrow> result \<times> 'w sys" where
  "confirmTransactionWithTimeout getSignatureStatuses signature commitment timeoutMs st =
     confirm_loop getSignatureStatuses signature commitment timeoutMs (clock st) st"

text \<open>
  The events of a run of polls that all went on waiting: each poll is followed by the
  2000 ms wait.
\<close>

definition pending_polls :: "string \<Rightarrow> (error + statuses) list \<Rightarrow> event list" where
  "pending_polls signature rs = concat (map (\<lambda>r. [Polled signature r, Slept 2000]) rs)"

text \<open>
  An example node for the polling loop: the world counts the polls; the signature is not
  yet known at the first poll and has reached \<open>confirmed\<close> at the second, and every
  request takes 300 ms.
\<close>

definition example_statuses :: "string \<Rightarrow> (nat, statuses) rpc" where
  "example_statuses signature w =
     (if w = 0 then (Inr (Some [None]), 300, Suc w)
      else (Inr (Some [Some \<lparr>err = None, confirmationStatus = Some ''confirmed''\<rparr>]), 300, Suc w))"

subsection \<open>The three kinds of poll response as the specification words them\<close>

text \<open>
  "(b) the status reports an on-chain execution error": the response has a status for
  the signature and its error is set; \<open>j\<close> is the JSON text of the error.
\<close>

fun reports_failure :: "error + statuses \<Rightarrow> string \<Rightarrow> bool" where
  "reports_failure (Inr (Some (Some s # rest))) j = (err s = Some j)"
| "reports_failure r j = False"

text \<open>
  "(a) the status reaches the requested commitment level" or \<open>finalized\<close>, for a
  transaction without execution error.
\<close>

fun reports_success :: "string \<Rightarrow> error + statuses \<Rightarrow> bool" where
  "reports_success commitment (Inr (Some (Some s # rest))) =
     (err s = None
      \<and> (confirmationStatus s = Some commitment \<or> confirmationStatus s = Some ''finalized''))"
| "reports_success commitment r = False"

text \<open>
  "Not yet visible": the request threw, the response has no status list or an empty
  one, the status is \<open>null\<close>, or the transaction has no error and has not reached the
  requested level or \<open>finalized\<close>.
\<close>

fun still_pending :: "string \<Rightarrow> error + statuses \<Rightarrow> bool" where
  "still_pending commitment (Inr (Some (Some s # rest))) =
     (err s = None
      \<and> confirmationStatus s \<noteq> Some commitment \<and> confirmationStatus s \<noteq> Some ''finalized'')"
| "still_pending commitment r = True"

text \<open>
  Two more example nodes: one that does not know the signature at the first poll and
  reports an execution error at the second, and one that never knows the signature.
\<close>

definition example_failing :: "string \<Rightarrow> (nat, statuses) rpc" where
  "example_failing signature w =
     (if w = 0 then (Inr (Some [None]), 300, Suc w)
      else (Inr (Some [Some \<lparr>err = Some ''{InstructionError:[0,{Custom:1}]}'',
                              confirmationStatus = Some ''confirmed''\<rparr>]), 300, Suc w))"

definition example_unknown :: "string \<Rightarrow> (nat, statuses) rpc" where
  "example_unknown signature w = (Inr (Some [None]), 300, Suc w)"

text \<open>The state of an example node that has answered \<open>w\<close> polls, at time 1000.\<close>

definition example_node :: "nat \<Rightarrow> nat sys" where
  "example_node w = \<lparr>world = w, clock = 1000, events = []\<rparr>"

section \<open>Numbers\<close>

text \<open>
  A JavaScript number: the three special values and the finite values, each finite value
  given by the rational number it denotes. Which rationals are values of the number
  format, and how a product is rounded to one, is not fixed here: parsing
  (\<^verbatim>\<open>parseFloat\<close>), the power \<^verbatim>\<open>Math.pow(10, decimals)\<close> and the product of two finite
  numbers are parameters of the model (fields of the environment below). What is fixed
  is the treatment of the special values.
\<close>

datatype jsnum = NaN | PosInf | NegInf | Fin rat

text \<open>\<^verbatim>\<open>x > 0\<close>: false for \<open>NaN\<close>.\<close>

fun js_gt0 :: "jsnum \<Rightarrow> bool" where
  "js_gt0 NaN = False"
| "js_gt0 PosInf = True"
| "js_gt0 NegInf = False"
| "js_gt0 (Fin q) = (q > 0)"

text \<open>
  \<^verbatim>\<open>x * y\<close>: \<open>NaN\<close> propagates, infinity times zero is \<open>NaN\<close>, infinity times anything
  else is an infinity with the product of the signs, and the product of two finite numbers
  is the parameter \<open>fl_mul\<close>.
\<close>

fun inf_times :: "bool \<Rightarrow> jsnum \<Rightarrow> jsnum" where
  "inf_times pos NaN = NaN"
| "inf_times pos PosInf = (if pos then PosInf else NegInf)"
| "inf_times pos NegInf = (if pos then NegInf else PosInf)"
| "inf_times pos (Fin q) =
     (if q = 0 then NaN else if (q > 0) = pos then PosInf else NegInf)"

fun js_mul :: "(rat \<Rightarrow> rat \<Rightarrow> jsnum) \<Rightarrow> jsnum \<Rightarrow> jsnum \<Rightarrow> jsnum" where
  "js_mul fl_mul NaN y = NaN"
| "js_mul fl_mul PosInf y = inf_times True y"
| "js_mul fl_mul NegInf y = inf_times False y"
| "js_mul fl_mul (Fin a) NaN = NaN"
| "js_mul fl_mul (Fin a) PosInf = inf_times True (Fin a)"
| "js_mul fl_mul (Fin a) NegInf = inf_times False (Fin a)"
| "js_mul fl_mul (Fin a) (Fin b) = fl_mul a b"

text \<open>
  \<^verbatim>\<open>Math.round(x)\<close>: the integer nearest to \<open>x\<close>, a tie going up; the special values are
  returned as they are.
\<close>

fun js_round :: "jsnum \<Rightarrow> jsnum" where
  "js_round (Fin q) = Fin (of_int \<lfloor>q + 1 / 2\<rfloor>)"
| "js_round x = x"

text \<open>
  \<^verbatim>\<open>BigInt(x)\<close> for a number \<open>x\<close>: the integer, or a \<^verbatim>\<open>RangeError\<close> when \<open>x\<close> is not an
  integer, which is the case of \<open>NaN\<close> and of the infinities.
\<close>

fun to_BigInt :: "jsnum \<Rightarrow> error + int" where
  "to_BigInt (Fin q) =
     (if of_int \<lfloor>q\<rfloor> = q then Inr \<lfloor>q\<rfloor>
      else Inl (RangeError ''The number cannot be converted to a BigInt because it is not an integer''))"
| "to_BigInt NaN =
     Inl (RangeError ''The number NaN cannot be converted to a BigInt because it is not an integer'')"
| "to_BigInt PosInf =
     Inl (RangeError ''The number Infinity cannot be converted to a BigInt because it is not an integer'')"
| "to_BigInt NegInf =
     Inl (RangeError ''The number -Infinity cannot be converted to a BigInt because it is not an integer'')"

section \<open>Transactions\<close>

text \<open>
  The three instructions the builder creates: \<^verbatim>\<open>SystemProgram.transfer\<close>,
  \<^verbatim>\<open>createTransferCheckedInstruction\<close> and \<^verbatim>\<open>createAssociatedTokenAccountInstruction\<close>, with
  their arguments in the order of the source. Public keys are given by their text.
\<close>

datatype instruction =
    SystemTransfer string string int
  | TransferChecked string string string string int nat string
  | CreateATA string string string string string

record Transaction =
  instructions :: "instruction list"
  recentBlockhash :: "string option"
  lastValidBlockHeight :: "nat option"
  feePayer :: "string option"

definition new_Transaction :: "instruction list \<Rightarrow> Transaction" where
  "new_Transaction ins =
     \<lparr>instructions = ins, recentBlockhash = None, lastValidBlockHeight = None, feePayer = None\<rparr>"

text \<open>
  The parsed body that the fee-payer service answers with: \<open>data_error\<close> is
  \<^verbatim>\<open>data.error\<close> as the pair of its \<^verbatim>\<open>message\<close> (empty when it has none) and its JSON text,
  \<open>data_tx\<close> is \<^verbatim>\<open>data.result.serializedTransaction\<close> when \<^verbatim>\<open>data.result\<close> is there.
\<close>

record fee_data =
  data_error :: "(string \<times> string) option"
  data_tx :: "string option"

record fee_result = result +
  signedTransaction :: "string option"

text \<open>
  The environment of a run: the library and network operations that the source calls and
  does not define.
  \<^item> \<open>newPublicKey\<close>: \<^verbatim>\<open>new PublicKey(text)\<close>, which throws on an invalid encoding;
  \<^item> \<open>getAssociatedTokenAddress mint owner programId\<close>, with \<^verbatim>\<open>allowOwnerOffCurve = false\<close>;
  \<^item> \<open>serialize\<close>: \<^verbatim>\<open>tx.serialize({...}).toString('base64')\<close>;
  \<^item> \<open>parseFloat\<close>, \<open>pow10\<close> (\<^verbatim>\<open>Math.pow(10, decimals)\<close>) and \<open>fl_mul\<close>, see above;
  \<^item> \<open>getAccountInfo\<close>: whether \<^verbatim>\<open>connection.getAccountInfo(ata)\<close> is not \<^verbatim>\<open>null\<close>;
  \<^item> \<open>getLatestBlockhash\<close>, \<open>sendTransaction\<close> (the wallet signs and sends),
    \<open>sendRawTransaction\<close>, \<open>getSignatureStatuses\<close>: requests of the connection;
  \<^item> \<open>fetchFeePayer\<close>: the \<^verbatim>\<open>alchemy_requestFeePayer\<close> request and the parsing of its
    answer.
\<close>

record 'w env =
  newPublicKey :: "string \<Rightarrow> error + string"
  getAssociatedTokenAddress :: "string \<Rightarrow> string \<Rightarrow> string \<Rightarrow> error + string"
  serialize :: "Transaction \<Rightarrow> error + string"
  parseFloat :: "string \<Rightarrow> jsnum"
  pow10 :: "nat \<Rightarrow> jsnum"
  fl_mul :: "rat \<Rightarrow> rat \<Rightarrow> jsnum"
  getAccountInfo :: "string \<Rightarrow> ('w, bool) rpc"
  getLatestBlockhash :: "('w, string \<times> nat) rpc"
  sendTransaction :: "Transaction \<Rightarrow> ('w, string) rpc"
  sendRawTransaction :: "string \<Rightarrow> ('w, string) rpc"
  getSignatureStatuses :: "string \<Rightarrow> ('w, statuses) rpc"
  fetchFeePayer :: "string \<Rightarrow> ('w, fee_data) rpc"

text \<open>
  \<^verbatim>\<open>
  const isValidAddress = (address: string): boolean => {
    try { new PublicKey(address); return true; } catch { return false; }
  };
  \<close>
\<close>

definition isValidAddress :: "'w env \<Rightarrow> string \<Rightarrow> bool" where
  "isValidAddress env a = (case newPublicKey env a of Inl e \<Rightarrow> False | Inr k \<Rightarrow> True)"

section \<open>The transaction builder (buildMultiSendTransaction, App.tsx 203-313)\<close>

text \<open>
  \<^verbatim>\<open>BigInt(Math.round(parseFloat(recipient.amount) * Math.pow(10, decimals)))\<close>
\<close>

definition amountBig :: "'w env \<Rightarrow> string \<Rightarrow> nat \<Rightarrow> error + int" where
  "amountBig env amt decimals =
     to_BigInt (js_round (js_mul (fl_mul env) (parseFloat env amt) (pow10 env decimals)))"

record ata_stats =
  existing :: nat
  toCreate :: nat

record ata_work =
  recipient :: string
  ata :: string
  mint :: string

text \<open>
  The account-resolution loop (lines 232-249), for the recipients still to visit. Each
  lookup and its answer is recorded as an event.
  \<^verbatim>\<open>
  for (const recipient of recipients) {
    const recipientPubkey = new PublicKey(recipient.address);
    const ata = await getAssociatedTokenAddress(mintPubkey, recipientPubkey, false, programId);
    const ataAccount = await connection.getAccountInfo(ata);
    const ataExists = ataAccount !== null;
    if (ataExists) { ataStats.existing++; }
    else { ataStats.toCreate++; atasToCreate.push({ recipient: recipientPubkey, ata: ata, mint: mintPubkey }); }
  }
  \<close>
\<close>

fun resolve_loop ::
  "'w env \<Rightarrow> string \<Rightarrow> string \<Rightarrow> Recipient list \<Rightarrow> ata_stats \<Rightarrow> ata_work list \<Rightarrow> 'w sys
     \<Rightarrow> (error + ata_stats \<times> ata_work list) \<times> 'w sys" where
  "resolve_loop env mintPubkey programId [] ataStats atasToCreate st =
     (Inr (ataStats, atasToCreate), st)"
| "resolve_loop env mintPubkey programId (r # rs) ataStats atasToCreate st =
     (case newPublicKey env (address r) of
        Inl e \<Rightarrow> (Inl e, st)
      | Inr recipientPubkey \<Rightarrow>
         (case getAssociatedTokenAddress env mintPubkey recipientPubkey programId of
            Inl e \<Rightarrow> (Inl e, st)
          | Inr a \<Rightarrow>
             (case call (getAccountInfo env a) st of
                (Inl e, st1) \<Rightarrow> (Inl e, st1)
              | (Inr ataExists, st1) \<Rightarrow>
                  if ataExists
                  then resolve_loop env mintPubkey programId rs
                         (ataStats\<lparr>existing := existing ataStats + 1\<rparr>) atasToCreate
                         (log_event (Checked a True) st1)
                  else resolve_loop env mintPubkey programId rs
                         (ataStats\<lparr>toCreate := toCreate ataStats + 1\<rparr>)
                         (atasToCreate @ [\<lparr>recipient = recipientPubkey, ata = a, mint = mintPubkey\<rparr>])
                         (log_event (Checked a False) st1))))"

text \<open>
  The creation transactions (lines 251-271): the work list cut into chunks of
  \<^verbatim>\<open>ataChunkSize = 2\<close>, one creation instruction per item, paid by the sender. The chunk
  loop returns for every positive chunk size.
\<close>

definition ataChunkSize :: nat where
  "ataChunkSize = 2"

definition create_instruction :: "string \<Rightarrow> string \<Rightarrow> ata_work \<Rightarrow> instruction" where
  "create_instruction sender programId w = CreateATA sender (ata w) (recipient w) (mint w) programId"

definition build_ata_txs :: "string \<Rightarrow> string \<Rightarrow> ata_work list \<Rightarrow> Transaction list" where
  "build_ata_txs sender programId atasToCreate =
     (if length atasToCreate > 0
      then map (\<lambda>ataChunk. new_Transaction (map (create_instruction sender programId) ataChunk))
             (the (chunk_recipients atasToCreate ataChunkSize))
      else [])"

text \<open>
  The instruction for one recipient (lines 278-306): the recipient key, the amount in
  smallest units, and a native transfer or a checked token transfer between the two
  derived accounts.
\<close>

definition transfer_instruction ::
  "'w env \<Rightarrow> string \<Rightarrow> string \<Rightarrow> nat \<Rightarrow> string \<Rightarrow> Recipient \<Rightarrow> error + instruction" where
  "transfer_instruction env sender tokenMint decimals programId r =
     (case newPublicKey env (address r) of
        Inl e \<Rightarrow> Inl e
      | Inr recipientPubkey \<Rightarrow>
         (case amountBig env (amount r) decimals of
            Inl e \<Rightarrow> Inl e
          | Inr amt \<Rightarrow>
              if tokenMint = SOL_MINT
              then Inr (SystemTransfer sender recipientPubkey amt)
              else (case newPublicKey env tokenMint of
                      Inl e \<Rightarrow> Inl e
                    | Inr mintPubkey \<Rightarrow>
                       (case getAssociatedTokenAddress env mintPubkey sender programId of
                          Inl e \<Rightarrow> Inl e
                        | Inr senderATA \<Rightarrow>
                           (case getAssociatedTokenAddress env mintPubkey recipientPubkey programId of
                              Inl e \<Rightarrow> Inl e
                            | Inr recipientATA \<Rightarrow>
                                Inr (TransferChecked senderATA mintPubkey recipientATA sender
                                       amt decimals programId))))))"

text \<open>
  The instructions of one transfer transaction (\<^verbatim>\<open>for (const recipient of chunk)\<close>), and
  the transfer transactions (\<^verbatim>\<open>for (const chunk of chunks)\<close>); the first exception ends
  the build.
\<close>

fun transfer_instructions ::
  "'w env \<Rightarrow> string \<Rightarrow> string \<Rightarrow> nat \<Rightarrow> string \<Rightarrow> Recipient list \<Rightarrow> error + instruction list" where
  "transfer_instructions env sender tokenMint decimals programId [] = Inr []"
| "transfer_instructions env sender tokenMint decimals programId (r # rs) =
     (case transfer_instruction env sender tokenMint decimals programId r of
        Inl e \<Rightarrow> Inl e
      | Inr ins \<Rightarrow>
         (case transfer_instructions env sender tokenMint decimals programId rs of
            Inl e \<Rightarrow> Inl e
          | Inr rest \<Rightarrow> Inr (ins # rest)))"

fun build_transfer_txs ::
  "'w env \<Rightarrow> string \<Rightarrow> string \<Rightarrow> nat \<Rightarrow> string \<Rightarrow> Recipient list list \<Rightarrow> error + Transaction list" where
  "build_transfer_txs env sender tokenMint decimals programId [] = Inr []"
| "build_transfer_txs env sender tokenMint decimals programId (chunk # chunks) =
     (case transfer_instructions env sender tokenMint decimals programId chunk of
        Inl e \<Rightarrow> Inl e
      | Inr ins \<Rightarrow>
         (case build_transfer_txs env sender tokenMint decimals programId chunks of
            Inl e \<Rightarrow> Inl e
          | Inr txs \<Rightarrow> Inr (new_Transaction ins # txs)))"

record build_result =
  transferTxs :: "Transaction list"
  ataTxs :: "Transaction list"
  ataStats :: ata_stats

text \<open>
  The account resolution of the builder (lines 226-249): nothing to do for the native
  asset, otherwise the mint key is built and the loop runs over all recipients.
\<close>

definition resolve_accounts ::
  "'w env \<Rightarrow> string \<Rightarrow> string \<Rightarrow> Recipient list \<Rightarrow> 'w sys
     \<Rightarrow> (error + ata_stats \<times> ata_work list) \<times> 'w sys" where
  "resolve_accounts env tokenMint programId recipients st =
     (if tokenMint = SOL_MINT then (Inr (\<lparr>existing = 0, toCreate = 0\<rparr>, []), st)
      else (case newPublicKey env tokenMint of
              Inl e \<Rightarrow> (Inl e, st)
            | Inr mintPubkey \<Rightarrow>
                resolve_loop env mintPubkey programId recipients \<lparr>existing = 0, toCreate = 0\<rparr> [] st))"

definition buildMultiSendTransaction ::
  "'w env \<Rightarrow> string \<Rightarrow> Recipient list \<Rightarrow> string \<Rightarrow> nat \<Rightarrow> string \<Rightarrow> 'w sys
     \<Rightarrow> (error + build_result) \<times> 'w sys" where
  "buildMultiSendTransaction env sender recipients tokenMint decimals programId st =
     (let isSol = (tokenMint = SOL_MINT);
          chunkSize = (if isSol then MAX_TX_SIZE_SOL else MAX_TX_SIZE_SPL);
          chunks = the (chunk_recipients recipients chunkSize)
      in case resolve_accounts env tokenMint programId recipients st of
           (Inl e, st1) \<Rightarrow> (Inl e, st1)
         | (Inr (stats, atasToCreate), st1) \<Rightarrow>
             (case build_transfer_txs env sender tokenMint decimals programId chunks of
                Inl e \<Rightarrow> (Inl e, st1)
              | Inr txs \<Rightarrow>
                  (Inr \<lparr>transferTxs = txs,
                        ataTxs = build_ata_txs sender programId atasToCreate,
                        ataStats = stats\<rparr>, st1)))"

text \<open>
  The creation work item of a recipient: its key, the account id derived for it and the
  mint. \<open>None\<close> when the key or the derivation throws.
\<close>

definition derive_work :: "'w env \<Rightarrow> string \<Rightarrow> string \<Rightarrow> Recipient \<Rightarrow> ata_work option" where
  "derive_work env mintPubkey programId r =
     (case newPublicKey env (address r) of
        Inl e \<Rightarrow> None
      | Inr recipientPubkey \<Rightarrow>
         (case getAssociatedTokenAddress env mintPubkey recipientPubkey programId of
            Inl e \<Rightarrow> None
          | Inr a \<Rightarrow> Some \<lparr>recipient = recipientPubkey, ata = a, mint = mintPubkey\<rparr>))"

section \<open>The component state\<close>

text \<open>
  \<^verbatim>\<open>interface TokenAccount\<close>, the fields that the send path reads. \<open>selected\<close> is false when
  the optional field is missing, \<open>amountToSend\<close> and \<open>programId\<close> are \<open>None\<close> then.
\<close>

record TokenAccount =
  mint :: string
  decimals :: nat
  symbol :: string
  selected :: bool
  amountToSend :: "string option"
  programId :: "string option"

datatype TokenType = SOL | SPL | MULTI

datatype Status = IDLE | VALIDATING | SENDING | SUCCESS | ERROR

text \<open>
  The status line of the application. Each constructor stands for one message template
  of the source: \<open>MsgNone\<close> is the empty text, \<open>MsgLimitExceeded n\<close> is
  \<^verbatim>\<open>Limit exceeded: displaying first ${MAX_BATCH_SIZE} only.\<close>, \<open>MsgValidating\<close> the line
  set when a send starts, \<open>MsgSent recipients created existed\<close> and
  \<open>MsgSentMulti tokens recipients created existed\<close> the two success lines, and
  \<open>MsgError m\<close> the line of the \<^verbatim>\<open>catch\<close> blocks with the message \<open>m\<close>.
\<close>

datatype status_msg =
    MsgNone
  | MsgLimitExceeded nat
  | MsgValidating
  | MsgSent nat nat nat
  | MsgSentMulti nat nat nat nat
  | MsgError string

text \<open>
  The state of the \<^verbatim>\<open>Dashboard\<close> component that parsing and sending read and write
  (\<^verbatim>\<open>useState\<close>, lines 326-346), with the connected wallet's key. \<open>status\<close>, \<open>statusMsg\<close>
  and \<open>txSigs\<close> are the session that the user sees.
\<close>

record app =
  publicKey :: "string option"
  mode :: Mode
  tokenType :: TokenType
  splMint :: string
  splDecimals :: nat
  splProgramId :: string
  tokenAccounts :: "TokenAccount list"
  customTokens :: "TokenAccount list"
  rawText :: string
  parsedRecipients :: "Recipient list"
  sameAmount :: string
  status :: Status
  statusMsg :: status_msg
  txSigs :: "string list"

text \<open>
  \<^verbatim>\<open>
  if (recipients.length > MAX_BATCH_SIZE) {
    setStatusMsg(`Limit exceeded: displaying first ${MAX_BATCH_SIZE} only.`);
    setParsedRecipients(recipients.slice(0, MAX_BATCH_SIZE));
  } else { setStatusMsg(''); setParsedRecipients(recipients); }
  \<close>
\<close>

definition handleParse :: "app \<Rightarrow> string \<Rightarrow> app" where
  "handleParse a raw =
     (let recipients = parse_recipients (mode a) (sameAmount a) raw in
      if length recipients > MAX_BATCH_SIZE
      then a\<lparr>rawText := raw, statusMsg := MsgLimitExceeded MAX_BATCH_SIZE,
             parsedRecipients := slice recipients 0 MAX_BATCH_SIZE\<rparr>
      else a\<lparr>rawText := raw, statusMsg := MsgNone, parsedRecipients := recipients\<rparr>)"

section \<open>Fee sponsorship (requestAlchemyFeePayer, App.tsx 113-160)\<close>

text \<open>\<^verbatim>\<open>a || b\<close> on strings.\<close>

definition or_else :: "string \<Rightarrow> string \<Rightarrow> string" where
  "or_else a b = (if a = [] then b else a)"

definition fee_failure :: "string \<Rightarrow> fee_result" where
  "fee_failure m = \<lparr>success = False, error = Some m, signedTransaction = None\<rparr>"

text \<open>
  \<^verbatim>\<open>
  try {
    const response = await fetch(...); const data = await response.json();
    if (data.error) return { success: false,
        error: `Alchemy error: ${data.error.message || JSON.stringify(data.error)}` };
    if (!data.result || !data.result.serializedTransaction)
      return { success: false, error: 'Invalid response from Alchemy Gas Manager' };
    return { success: true, signedTransaction: data.result.serializedTransaction };
  } catch (error: any) {
    return { success: false, error: error.message || 'Failed to request fee payer from Alchemy' };
  }
  \<close>
\<close>

definition requestAlchemyFeePayer :: "'w env \<Rightarrow> string \<Rightarrow> 'w sys \<Rightarrow> fee_result \<times> 'w sys" where
  "requestAlchemyFeePayer env serializedTransaction st =
     (case call (fetchFeePayer env serializedTransaction) st of
        (Inl e, st1) \<Rightarrow>
          (fee_failure (or_else (message e) ''Failed to request fee payer from Alchemy''), st1)
      | (Inr d, st1) \<Rightarrow>
          (case data_error d of
             Some (m, json) \<Rightarrow> (fee_failure (''Alchemy error: '' @ or_else m json), st1)
           | None \<Rightarrow>
              (case data_tx d of
                 None \<Rightarrow> (fee_failure ''Invalid response from Alchemy Gas Manager'', st1)
               | Some t \<Rightarrow>
                   if t = [] then (fee_failure ''Invalid response from Alchemy Gas Manager'', st1)
                   else (\<lparr>success = True, error = None, signedTransaction = Some t\<rparr>, st1))))"

section \<open>The send handlers (handleSend, handleMultiTokenSend, App.tsx 637-917)\<close>

text \<open>Decimal text of a number, as a template literal prints it.\<close>

function show_nat :: "nat \<Rightarrow> string" where
  "show_nat n =
     (if n < 10 then [''0123456789'' ! n]
      else show_nat (n div 10) @ [''0123456789'' ! (n mod 10)])"
  by pat_completeness auto
termination
  by (relation "measure id") auto

declare show_nat.simps [simp del]

text \<open>
  Submitting one transfer transaction (lines 750-759 and 888-897): the fresh blockhash
  and the fee payer are set, then the wallet signs and sends.
\<close>

definition send_transfer :: "'w env \<Rightarrow> string \<Rightarrow> Transaction \<Rightarrow> 'w sys \<Rightarrow> (error + string) \<times> 'w sys" where
  "send_transfer env pk tx st =
     (case call (getLatestBlockhash env) st of
        (Inl e, st1) \<Rightarrow> (Inl e, st1)
      | (Inr (blockhash, height), st1) \<Rightarrow>
          call (sendTransaction env
                  (tx\<lparr>recentBlockhash := Some blockhash, lastValidBlockHeight := Some height,
                      feePayer := Some pk\<rparr>)) st1)"

text \<open>
  Submitting one creation transaction (lines 679-720 and 836-871). With sponsorship
  enabled the unsigned transaction is serialized and sent to the fee-payer service, a
  refusal is thrown as an error whose message starts with \<open>prefix\<close>
  (\<^verbatim>\<open>Alchemy failed: \<close> in \<^verbatim>\<open>handleSend\<close>, \<^verbatim>\<open>Alchemy failed for ${token.symbol}: \<close> in
  \<^verbatim>\<open>handleMultiTokenSend\<close>), and the countersigned transaction is sent raw; without it the
  wallet signs and sends. A successful answer without a transaction cannot occur
  (see \<open>requestAlchemyFeePayer\<close>); \<^verbatim>\<open>Buffer.from(undefined)\<close> would throw.
\<close>

definition send_ata_batch ::
  "'w env \<Rightarrow> string \<Rightarrow> string \<Rightarrow> Transaction \<Rightarrow> 'w sys \<Rightarrow> (error + string) \<times> 'w sys" where
  "send_ata_batch env pk prefix ataTx st =
     (case call (getLatestBlockhash env) st of
        (Inl e, st1) \<Rightarrow> (Inl e, st1)
      | (Inr (blockhash, height), st1) \<Rightarrow>
          (let tx = ataTx\<lparr>recentBlockhash := Some blockhash, lastValidBlockHeight := Some height,
                           feePayer := Some pk\<rparr>
           in if ALCHEMY_enabled
              then (case serialize env tx of
                      Inl e \<Rightarrow> (Inl e, st1)
                    | Inr unsignedSerialized \<Rightarrow>
                       (case requestAlchemyFeePayer env unsignedSerialized st1 of
                          (alchemyResult, st2) \<Rightarrow>
                            if \<not> success alchemyResult
                            then (Inl (Error (prefix @ (case error alchemyResult of
                                                          None \<Rightarrow> ''undefined'' | Some m \<Rightarrow> m))), st2)
                            else (case signedTransaction alchemyResult of
                                    None \<Rightarrow> (Inl (Error ''The first argument must be of type string''), st2)
                                  | Some signed \<Rightarrow> call (sendRawTransaction env signed) st2)))
              else call (sendTransaction env tx) st1))"

text \<open>
  The four submission loops of the handlers have one shape: the transactions are sent in
  order, each signature is pushed onto the signature list, and an exception ends the
  loop. They differ in how a transaction is sent (\<open>send\<close>), in how the exception of
  batch \<open>i\<close> is rethrown (\<open>wrap\<close>) and in the pause after batch \<open>i\<close> (\<open>pause\<close>).
  \<open>i\<close> is the loop index of the first transaction of the list; \<open>kind\<close> and the asset
  number \<open>k\<close> only label the recorded event.
\<close>

fun submit_loop ::
  "(Transaction \<Rightarrow> 'w sys \<Rightarrow> (error + string) \<times> 'w sys) \<Rightarrow> (nat \<Rightarrow> error \<Rightarrow> error)
     \<Rightarrow> (nat \<Rightarrow> 'w sys \<Rightarrow> 'w sys) \<Rightarrow> batch_kind \<Rightarrow> nat \<Rightarrow> nat \<Rightarrow> Transaction list
     \<Rightarrow> string list \<Rightarrow> 'w sys \<Rightarrow> (error + string list) \<times> 'w sys" where
  "submit_loop send wrap pause kind k i [] signatures st = (Inr signatures, st)"
| "submit_loop send wrap pause kind k i (tx # txs) signatures st =
     (case send tx st of
        (Inl e, st1) \<Rightarrow> (Inl (wrap i e), st1)
      | (Inr signature, st1) \<Rightarrow>
          submit_loop send wrap pause kind k (Suc i) txs (signatures @ [signature])
            (pause i (log_event (Submitted kind k i signature) st1)))"

text \<open>
  \<^verbatim>\<open>if (i < txs.length - 1) await new Promise(resolve => setTimeout(resolve, ms));\<close>
\<close>

definition pause_between :: "nat \<Rightarrow> nat \<Rightarrow> nat \<Rightarrow> 'w sys \<Rightarrow> 'w sys" where
  "pause_between n ms i st = (if i < n - 1 then sleep ms st else st)"

text \<open>
  \<^verbatim>\<open>catch (ataError: any) { throw new Error(`ATA batch ${i + 1} failed: ${ataError.message}`); }\<close>
\<close>

definition ata_batch_failed :: "nat \<Rightarrow> error \<Rightarrow> error" where
  "ata_batch_failed i e = Error (''ATA batch '' @ show_nat (i + 1) @ '' failed: '' @ message e)"

text \<open>
  The confirmation loops: every signature of the list is awaited in order with
  commitment \<open>confirmed\<close> and a timeout of 90000 ms, and the result of the wait is not
  looked at:
  \<^verbatim>\<open>await confirmTransactionWithTimeout(connection, signatures[i], 'confirmed', 90000);\<close>
\<close>

fun confirm_all :: "'w env \<Rightarrow> string list \<Rightarrow> 'w sys \<Rightarrow> 'w sys" where
  "confirm_all env [] st = st"
| "confirm_all env (signature # rest) st =
     (case confirmTransactionWithTimeout (getSignatureStatuses env) signature ''confirmed'' 90000 st of
        (res, st1) \<Rightarrow> confirm_all env rest (log_event (Awaited signature res) st1))"

text \<open>\<^verbatim>\<open>xs.slice(-n)\<close> for \<open>n \<ge> 0\<close>: the last \<open>n\<close> elements, and the whole list for \<open>n = 0\<close>.\<close>

definition slice_last :: "'a list \<Rightarrow> nat \<Rightarrow> 'a list" where
  "slice_last xs n = (if n = 0 then xs else drop (length xs - n) xs)"

definition plan_of :: "nat \<Rightarrow> build_result \<Rightarrow> event" where
  "plan_of k b =
     Planned k (map (\<lambda>tx. length (instructions tx)) (ataTxs b))
               (map (\<lambda>tx. length (instructions tx)) (transferTxs b))"

text \<open>
  The body of the \<^verbatim>\<open>try\<close> block of \<^verbatim>\<open>handleSend\<close> after validation (lines 658-783): build,
  send and confirm the creation transactions, then send and confirm the transfer
  transactions. It returns the signature list and the account statistics, or the
  exception thrown.
\<close>

definition send_single ::
  "'w env \<Rightarrow> string \<Rightarrow> Recipient list \<Rightarrow> string \<Rightarrow> nat \<Rightarrow> string \<Rightarrow> 'w sys
     \<Rightarrow> (error + string list \<times> ata_stats) \<times> 'w sys" where
  "send_single env pk validRecipients mintToUse decimalsToUse programIdToUse st =
     (case buildMultiSendTransaction env pk validRecipients mintToUse decimalsToUse programIdToUse st of
        (Inl e, st1) \<Rightarrow> (Inl e, st1)
      | (Inr b, st1) \<Rightarrow>
         (case (if length (ataTxs b) > 0
                then (case submit_loop (send_ata_batch env pk ''Alchemy failed: '') ata_batch_failed
                             (pause_between (length (ataTxs b)) 1000) Creation 0 0 (ataTxs b) []
                             (log_event (plan_of 0 b) st1) of
                        (Inl e, st2) \<Rightarrow> (Inl e, st2)
                      | (Inr signatures, st2) \<Rightarrow>
                          (Inr signatures, sleep 1500 (confirm_all env signatures st2)))
                else (Inr [], log_event (plan_of 0 b) st1)) of
            (Inl e, st3) \<Rightarrow> (Inl e, st3)
          | (Inr signatures, st3) \<Rightarrow>
             (case submit_loop (send_transfer env pk) (\<lambda>i e. e)
                     (pause_between (length (transferTxs b)) 800) Transfer 0 0 (transferTxs b)
                     signatures st3 of
                (Inl e, st4) \<Rightarrow> (Inl e, st4)
              | (Inr signatures', st4) \<Rightarrow>
                  (Inr (signatures', ataStats b),
                   confirm_all env (slice_last signatures' (length (transferTxs b))) st4))))"

text \<open>
  One pass of the token loop of \<^verbatim>\<open>handleMultiTokenSend\<close> (lines 810-907) for the token
  with index \<open>tokenIdx\<close>, and the loop over the selected tokens that are left. The loop
  carries the signature list and the two account totals.
\<close>

definition recipientsWithAmount :: "TokenAccount \<Rightarrow> Recipient list \<Rightarrow> Recipient list" where
  "recipientsWithAmount token validRecipients =
     map (\<lambda>r. \<lparr>address = address r,
                amount = or_zero (case amountToSend token of None \<Rightarrow> [] | Some a \<Rightarrow> a)\<rparr>)
       validRecipients"

definition send_token ::
  "'w env \<Rightarrow> string \<Rightarrow> Recipient list \<Rightarrow> nat \<Rightarrow> TokenAccount \<Rightarrow> string list \<Rightarrow> 'w sys
     \<Rightarrow> (error + string list \<times> ata_stats) \<times> 'w sys" where
  "send_token env pk validRecipients tokenIdx token allSignatures st =
     (case buildMultiSendTransaction env pk (recipientsWithAmount token validRecipients)
                (TokenAccount.mint token)
                (decimals token)
                (case programId token of None \<Rightarrow> TOKEN_PROGRAM_ID
                 | Some p \<Rightarrow> if p = [] then TOKEN_PROGRAM_ID else p) st of
        (Inl e, st1) \<Rightarrow> (Inl e, st1)
      | (Inr b, st1) \<Rightarrow>
            (case (if length (ataTxs b) > 0
                   then (case submit_loop
                                (send_ata_batch env pk (''Alchemy failed for '' @ symbol token @ '': ''))
                                (\<lambda>i e. e) (\<lambda>i. sleep 800) Creation tokenIdx 0 (ataTxs b) allSignatures
                                (log_event (plan_of tokenIdx b) st1) of
                           (Inl e, st2) \<Rightarrow> (Inl e, st2)
                         | (Inr sigs, st2) \<Rightarrow>
                             (Inr sigs,
                              confirm_all env (drop (length sigs - length (ataTxs b)) sigs) st2))
                   else (Inr allSignatures, log_event (plan_of tokenIdx b) st1)) of
               (Inl e, st3) \<Rightarrow> (Inl e, st3)
             | (Inr sigs, st3) \<Rightarrow>
                (case submit_loop (send_transfer env pk) (\<lambda>i e. e) (\<lambda>i. sleep 700) Transfer tokenIdx 0
                        (transferTxs b) sigs st3 of
                   (Inl e, st4) \<Rightarrow> (Inl e, st4)
                 | (Inr sigs', st4) \<Rightarrow>
                     (Inr (sigs', ataStats b),
                      confirm_all env (drop (length sigs' - length (transferTxs b)) sigs') st4))))"

fun token_loop ::
  "'w env \<Rightarrow> string \<Rightarrow> Recipient list \<Rightarrow> nat \<Rightarrow> TokenAccount list \<Rightarrow> string list \<Rightarrow> nat \<Rightarrow> nat
     \<Rightarrow> 'w sys \<Rightarrow> (error + string list \<times> nat \<times> nat) \<times> 'w sys" where
  "token_loop env pk validRecipients tokenIdx [] allSignatures totalAtasCreated totalAtasExisted st =
     (Inr (allSignatures, totalAtasCreated, totalAtasExisted), st)"
| "token_loop env pk validRecipients tokenIdx (token # tokens) allSignatures totalAtasCreated
       totalAtasExisted st =
     (case send_token env pk validRecipients tokenIdx token allSignatures st of
        (Inl e, st1) \<Rightarrow> (Inl e, st1)
      | (Inr (sigs, stats), st1) \<Rightarrow>
          token_loop env pk validRecipients (Suc tokenIdx) tokens sigs
            (totalAtasCreated + toCreate stats) (totalAtasExisted + existing stats) st1)"

text \<open>
  \<^verbatim>\<open>catch (err: any) { setStatus('ERROR'); setStatusMsg(`${err.message || fallback}`); }\<close>:
  the signature list of the session is not touched.
\<close>

definition fail_session :: "app \<Rightarrow> string \<Rightarrow> error \<Rightarrow> app" where
  "fail_session a fallback e = a\<lparr>status := ERROR, statusMsg := MsgError (or_else (message e) fallback)\<rparr>"

text \<open>
  \<^verbatim>\<open>handleMultiTokenSend\<close>. The selected tokens are those with
  \<^verbatim>\<open>t.selected && t.amountToSend && parseFloat(t.amountToSend) > 0\<close>.
\<close>

definition validRecipientsMulti :: "'w env \<Rightarrow> app \<Rightarrow> Recipient list" where
  "validRecipientsMulti env a = filter (\<lambda>r. isValidAddress env (address r)) (parsedRecipients a)"

definition token_chosen :: "'w env \<Rightarrow> TokenAccount \<Rightarrow> bool" where
  "token_chosen env t \<longleftrightarrow>
     selected t \<and> (case amountToSend t of None \<Rightarrow> False
                    | Some a \<Rightarrow> a \<noteq> [] \<and> js_gt0 (parseFloat env a))"

definition selectedTokens :: "'w env \<Rightarrow> app \<Rightarrow> TokenAccount list" where
  "selectedTokens env a = filter (token_chosen env) (tokenAccounts a @ customTokens a)"

definition handleMultiTokenSend :: "'w env \<Rightarrow> app \<Rightarrow> 'w sys \<Rightarrow> app \<times> 'w sys" where
  "handleMultiTokenSend env a st =
     (case publicKey a of
        None \<Rightarrow> (a, st)
      | Some pk \<Rightarrow>
         (let a1 = a\<lparr>status := VALIDATING, statusMsg := MsgValidating, txSigs := []\<rparr>;
              validRecipients = validRecipientsMulti env a;
              selectedTokens = selectedTokens env a
          in if length validRecipients = 0
             then (fail_session a1 ''Multi-token send failed'' (Error ''No valid recipients found.''), st)
             else if length selectedTokens = 0
             then (fail_session a1 ''Multi-token send failed''
                     (Error ''No tokens selected with valid amounts.''), st)
             else (case token_loop env pk validRecipients 0 selectedTokens [] 0 0 st of
                     (Inl e, st1) \<Rightarrow>
                        (fail_session (a1\<lparr>status := SENDING\<rparr>) ''Multi-token send failed'' e, st1)
                   | (Inr (allSignatures, created, existed), st1) \<Rightarrow>
                        (a1\<lparr>txSigs := allSignatures, status := SUCCESS,
                            statusMsg := MsgSentMulti (length selectedTokens) (length validRecipients)
                                           created existed\<rparr>, st1))))"

text \<open>
  \<^verbatim>\<open>handleSend\<close>. The valid recipients are those with
  \<^verbatim>\<open>isValidAddress(r.address) && parseFloat(r.amount) > 0\<close>.
\<close>

definition validRecipients :: "'w env \<Rightarrow> app \<Rightarrow> Recipient list" where
  "validRecipients env a =
     filter (\<lambda>r. isValidAddress env (address r) \<and> js_gt0 (parseFloat env (amount r)))
       (parsedRecipients a)"

definition handleSend :: "'w env \<Rightarrow> app \<Rightarrow> 'w sys \<Rightarrow> app \<times> 'w sys" where
  "handleSend env a st =
     (case publicKey a of
        None \<Rightarrow> (a, st)
      | Some pk \<Rightarrow>
         if tokenType a = MULTI then handleMultiTokenSend env a st
         else
          (let a1 = a\<lparr>status := VALIDATING, statusMsg := MsgValidating, txSigs := []\<rparr>;
               validRecipients = validRecipients env a
           in if length validRecipients = 0
              then (fail_session a1 ''Transaction failed'' (Error ''No valid recipients found.''), st)
              else if tokenType a = SPL \<and> \<not> isValidAddress env (splMint a)
              then (fail_session a1 ''Transaction failed'' (Error ''Invalid SPL Mint Address.''), st)
              else (case send_single env pk validRecipients
                           (if tokenType a = SOL then SOL_MINT else splMint a)
                           (if tokenType a = SOL then 9 else splDecimals a)
                           (if tokenType a = SPL then splProgramId a else TOKEN_PROGRAM_ID) st of
                      (Inl e, st1) \<Rightarrow>
                         (fail_session (a1\<lparr>status := SENDING\<rparr>) ''Transaction failed'' e, st1)
                    | (Inr (signatures, stats), st1) \<Rightarrow>
                         (a1\<lparr>txSigs := signatures, status := SUCCESS,
                             statusMsg := MsgSent (length validRecipients) (toCreate stats)
                                            (existing stats)\<rparr>, st1))))"

section \<open>An example environment\<close>

text \<open>
  A small concrete environment on which the definitions can be run. Its world holds
  the accounts that exist, the number of transactions accepted so far, the number of the
  submission that the network rejects (if any), and the execution error that the network
  reports for the transactions it has accepted (if any).
\<close>

record example_world =
  accounts :: "string list"
  sent :: nat
  reject_at :: "nat option"
  tx_err :: "string option"

text \<open>
  Reading a decimal text the way \<^verbatim>\<open>parseFloat\<close> does: leading white space, a sign,
  \<^verbatim>\<open>Infinity\<close> or digits with an optional fraction and exponent, the longest such prefix;
  \<open>NaN\<close> when there is none. The value is the exact rational that the text denotes.
\<close>

definition digit_of :: "char \<Rightarrow> nat option" where
  "digit_of = map_of [(CHR ''0'', 0), (CHR ''1'', 1), (CHR ''2'', 2), (CHR ''3'', 3), (CHR ''4'', 4),
     (CHR ''5'', 5), (CHR ''6'', 6), (CHR ''7'', 7), (CHR ''8'', 8), (CHR ''9'', 9)]"

fun read_digits :: "string \<Rightarrow> nat \<Rightarrow> nat \<Rightarrow> nat \<times> nat \<times> string" where
  "read_digits [] v n = (v, n, [])"
| "read_digits (c # cs) v n =
     (case digit_of c of None \<Rightarrow> (v, n, c # cs) | Some d \<Rightarrow> read_digits cs (10 * v + d) (Suc n))"

definition starts_with :: "string \<Rightarrow> string \<Rightarrow> bool" where
  "starts_with p s = (take (length p) s = p)"

definition read_exponent :: "string \<Rightarrow> int" where
  "read_exponent s =
     (if starts_with ''e'' s \<or> starts_with ''E'' s
      then (let r = tl s;
                neg = starts_with ''-'' r;
                r' = (if neg \<or> starts_with ''+'' r then tl r else r)
            in case read_digits r' 0 0 of
                 (v, n, rest) \<Rightarrow> if n = 0 then 0 else if neg then - int v else int v)
      else 0)"

definition scale10 :: "rat \<Rightarrow> int \<Rightarrow> rat" where
  "scale10 q e = (if e \<ge> 0 then q * 10 ^ nat e else q / 10 ^ nat (- e))"

definition read_unsigned :: "string \<Rightarrow> rat option" where
  "read_unsigned s =
     (case read_digits s 0 0 of
        (iv, ilen, r1) \<Rightarrow>
          (case (if starts_with ''.'' r1 then read_digits (tl r1) 0 0 else (0, 0, r1)) of
             (fv, flen, r2) \<Rightarrow>
               if ilen + flen = 0 then None
               else Some (scale10 (of_nat iv + of_nat fv / 10 ^ flen) (read_exponent r2))))"

definition example_parseFloat :: "string \<Rightarrow> jsnum" where
  "example_parseFloat s =
     (let t = dropWhile is_space s;
          neg = starts_with ''-'' t;
          u = (if neg \<or> starts_with ''+'' t then tl t else t)
      in if starts_with ''Infinity'' u then (if neg then NegInf else PosInf)
         else (case read_unsigned u of
                 None \<Rightarrow> NaN
               | Some q \<Rightarrow> Fin (if neg then - q else q)))"

text \<open>
  The example network accepts a transaction unless its number is the rejected one; the
  signature of the \<open>n\<close>-th accepted transaction is \<open>sig\<close> followed by the number \<open>n\<close>.
  Every status poll finds the transaction at level \<open>confirmed\<close>, with the execution error
  of the world.
\<close>

definition example_send :: "(example_world, string) rpc" where
  "example_send w =
     (if reject_at w = Some (sent w)
      then (Inl (Error ''Transaction simulation failed''), 100, w)
      else (Inr (''sig'' @ show_nat (sent w)), 100, w\<lparr>sent := Suc (sent w)\<rparr>))"

definition example_env :: "example_world env" where
  "example_env =
     \<lparr>newPublicKey = (\<lambda>s. if 4 \<le> length s then Inr s else Inl (Error ''Invalid public key input'')),
      getAssociatedTokenAddress = (\<lambda>m owner p. Inr (''ata:'' @ m @ '':'' @ owner)),
      serialize = (\<lambda>tx. Inr ''unsigned''),
      parseFloat = example_parseFloat,
      pow10 = (\<lambda>d. Fin (10 ^ d)),
      fl_mul = (\<lambda>x y. Fin (x * y)),
      getAccountInfo = (\<lambda>a w. (Inr (a \<in> set (accounts w)), 30, w)),
      getLatestBlockhash = (\<lambda>w. (Inr (''blockhash'', 1000), 20, w)),
      sendTransaction = (\<lambda>tx. example_send),
      sendRawTransaction = (\<lambda>raw. example_send),
      getSignatureStatuses =
        (\<lambda>s w. (Inr (Some [Some \<lparr>err = tx_err w, confirmationStatus = Some ''confirmed''\<rparr>]), 50, w)),
      fetchFeePayer = (\<lambda>ser w. (Inr \<lparr>data_error = None, data_tx = Some ''countersigned''\<rparr>, 100, w))\<rparr>"

definition example_world :: example_world where
  "example_world = \<lparr>accounts = [], sent = 0, reject_at = None, tx_err = None\<rparr>"

definition example_sys :: "example_world sys" where
  "example_sys = \<lparr>world = example_world, clock = 0, events = []\<rparr>"

definition example_app :: app where
  "example_app =
     \<lparr>publicKey = Some ''Sender1111'', mode = SAME, tokenType = SOL, splMint = [],
      splDecimals = 9, splProgramId = TOKEN_PROGRAM_ID, tokenAccounts = [], customTokens = [],
      rawText = [], parsedRecipients = [], sameAmount = [], status = IDLE, statusMsg = MsgNone,
      txSigs = []\<rparr>"

section \<open>The number format\<close>











section \<open>The order of submissions as the specification words it\<close>

text \<open>
  "Then await confirmation for every creation batch before building any transfer batch
  for that asset." On the record of events: \<open>creation_done k es\<close> says that in \<open>es\<close> the
  transactions of asset \<open>k\<close> have been planned and that every creation batch of the plan
  has been submitted and, after that, the confirmation of its signature has been awaited.
\<close>

fun is_await :: "string \<Rightarrow> event \<Rightarrow> bool" where
  "is_await sg (Awaited sg' res) = (sg' = sg)"
| "is_await sg e = False"

fun is_creation_submit :: "nat \<Rightarrow> nat \<Rightarrow> event \<Rightarrow> string option" where
  "is_creation_submit k j (Submitted kind k' j' sg) =
     (if kind = Creation \<and> k' = k \<and> j' = j then Some sg else None)"
| "is_creation_submit k j e = None"

fun submitted_then_awaited :: "nat \<Rightarrow> nat \<Rightarrow> event list \<Rightarrow> bool" where
  "submitted_then_awaited k j [] = False"
| "submitted_then_awaited k j (e # es) =
     ((case is_creation_submit k j e of Some sg \<Rightarrow> list_ex (is_await sg) es | None \<Rightarrow> False)
      \<or> submitted_then_awaited k j es)"

fun plan_asset :: "event \<Rightarrow> nat option" where
  "plan_asset (Planned k cs ts) = Some k"
| "plan_asset e = None"

fun plan_complete :: "nat \<Rightarrow> event list \<Rightarrow> event \<Rightarrow> bool" where
  "plan_complete k es (Planned k' cs ts) =
     (k' = k \<and> (\<forall>j<length cs. submitted_then_awaited k j es))"
| "plan_complete k es e = False"

definition creation_done :: "nat \<Rightarrow> event list \<Rightarrow> bool" where
  "creation_done k es = list_ex (plan_complete k es) es"

text \<open>The assets for which the events of a list plan transactions, in order.\<close>

definition planned_assets :: "event list \<Rightarrow> nat list" where
  "planned_assets es = List.map_filter plan_asset es"

text \<open>
  The statement about a whole record of events: whenever a transfer batch of an asset is
  submitted, the creation work of that asset is done in the events before it.
\<close>

definition creation_first :: "event list \<Rightarrow> bool" where
  "creation_first es \<longleftrightarrow>
     (\<forall>pre k i sg post. es = pre @ Submitted Transfer k i sg # post \<longrightarrow> creation_done k pre)"

text \<open>Events that are neither a plan nor a submission.\<close>

fun is_noise :: "event \<Rightarrow> bool" where
  "is_noise (Planned k cs ts) = False"
| "is_noise (Submitted kind k i sg) = False"
| "is_noise e = True"

text \<open>
  The shape of the events that the work on asset \<open>k\<close> adds: account lookups only (the
  build threw), or lookups \<open>A\<close>, the plan, the creation submissions \<open>S\<close>, the
  confirmation waits \<open>C\<close> for them and the transfer part \<open>T\<close>, which is empty unless every
  creation batch of the plan has been submitted and its confirmation awaited.
\<close>

definition asset_events :: "nat \<Rightarrow> event list \<Rightarrow> bool" where
  "asset_events k xs \<longleftrightarrow>
     (\<forall>e\<in>set xs. is_noise e)
     \<or> (\<exists>A cs ts S C T. xs = A @ Planned k cs ts # S @ C @ T
          \<and> (\<forall>e\<in>set A. is_noise e)
          \<and> (\<forall>e\<in>set S. is_noise e \<or> (\<exists>j sg. e = Submitted Creation k j sg))
          \<and> (\<forall>e\<in>set C. is_noise e)
          \<and> (\<forall>e\<in>set T. is_noise e \<or> (\<exists>j sg. e = Submitted Transfer k j sg))
          \<and> (T \<noteq> [] \<longrightarrow>
                (\<forall>j<length cs. \<exists>sg. Submitted Creation k j sg \<in> set S
                                    \<and> (\<exists>res. Awaited sg res \<in> set C)))
          \<and> (\<forall>c\<in>set cs. 0 < c \<and> c \<le> 2))"

section \<open>Properties of the chunking step\<close>

lemma ceil_div_step:
  assumes "0 < (B::nat)" "0 < n"
  shows "(n + B - 1) div B = Suc ((n - B + B - 1) div B)"
proof (cases "n \<le> B")
  case True
  have "n + B - 1 = (n - 1) + B" using assms by arith
  then have "(n + B - 1) div B = (n - 1) div B + 1"
    using assms by (simp only: div_add_self2)
  moreover have "(n - 1) div B = 0" using True assms by simp
  moreover have "n - B + B - 1 = B - 1" using True by simp
  moreover have "(B - 1) div B = 0" using assms by simp
  ultimately show ?thesis by simp
next
  case False
  then have "n + B - 1 = (n - B + B - 1) + B" using assms by arith
  then have "(n + B - 1) div B = (n - B + B - 1) div B + 1"
    using assms by (simp only: div_add_self2)
  then show ?thesis by simp
qed

lemma chunk_loop_props:
  assumes "0 < B"
  shows "\<exists>cs. chunk_loop xs B i acc = Some (acc @ cs)
      \<and> length cs = (length xs - i + B - 1) div B
      \<and> (\<forall>c\<in>set cs. length c \<le> B)
      \<and> concat cs = drop i xs"
  using assms
proof (induction "length xs - i" arbitrary: i acc rule: less_induct)
  case less
  show ?case
  proof (cases "i < length xs")
    case False
    then have "chunk_loop xs B i acc = Some (acc @ [])"
      by (subst chunk_loop.simps) simp
    moreover have "(length xs - i + B - 1) div B = 0"
      using False less.prems by simp
    ultimately show ?thesis using False by fastforce
  next
    case True
    have "length xs - (i + B) < length xs - i" using True less.prems by arith
    from less.hyps[OF this less.prems, of "acc @ [slice xs i (i + B)]"]
    obtain cs where cs: "chunk_loop xs B (i + B) (acc @ [slice xs i (i + B)]) = Some ((acc @ [slice xs i (i + B)]) @ cs)"
      "length cs = (length xs - (i + B) + B - 1) div B"
      "\<forall>c\<in>set cs. length c \<le> B" "concat cs = drop (i + B) xs" by blast
    have 1: "chunk_loop xs B i acc = Some (acc @ (slice xs i (i + B) # cs))"
      using True cs(1) by (subst chunk_loop.simps) simp
    have 2: "length (slice xs i (i + B) # cs) = (length xs - i + B - 1) div B"
      using ceil_div_step[OF less.prems, of "length xs - i"] True cs(2) by simp
    have 3: "concat (slice xs i (i + B) # cs) = drop i xs"
    proof -
      have "take B (drop i xs) @ drop B (drop i xs) = drop i xs" by (rule append_take_drop_id)
      then show ?thesis using cs(4) by (simp add: slice_def add.commute)
    qed
    have 4: "\<forall>c\<in>set (slice xs i (i + B) # cs). length c \<le> B"
      using cs(3) by (simp add: slice_def)
    show ?thesis using 1 2 3 4 by blast
  qed
qed

lemma ceil_div_real:
  assumes "0 < (B::nat)"
  shows "\<lceil>real n / real B\<rceil> = int ((n + B - 1) div B)"
proof (rule ceiling_unique)
  let ?q = "(n + B - 1) div B"
  have lo: "?q * B \<le> n + B - 1" by simp
  have hi: "n + B - 1 < ?q * B + B"
    using assms div_mult_mod_eq[of "n + B - 1" B] mod_less_divisor[OF assms, of "n + B - 1"] by linarith
  have Bpos: "0 < real B" using assms by simp
  have "n \<le> ?q * B" using hi assms by arith
  then have "real n \<le> real (?q * B)" using of_nat_le_iff by blast
  then have "real n \<le> real ?q * real B" by simp
  then show "real n / real B \<le> of_int (int ?q)"
    using Bpos by (simp add: pos_divide_le_eq)
  have "?q * B < n + B" using lo assms by arith
  then have "real (?q * B) < real (n + B)" using of_nat_less_iff by blast
  then have "real ?q * real B - real B < real n" by simp
  then have "(real ?q - 1) * real B < real n" by (simp add: algebra_simps)
  then show "of_int (int ?q) - 1 < real n / real B"
    using Bpos by (simp add: pos_less_divide_eq)
qed


text \<open>
  C2. For every recipient list of length \<open>N\<close> and every positive batch size \<open>B\<close> the
  chunking loop returns, and what it returns are \<open>\<lceil>N / B\<rceil>\<close> batches, each of at most
  \<open>B\<close> recipients, whose concatenation in order is the input list: nothing is dropped,
  reordered or duplicated.
\<close>

theorem chunk_recipients_partition:
  assumes "0 < B"
  shows "\<exists>chunks. chunk_recipients xs B = Some chunks
      \<and> int (length chunks) = \<lceil>real (length xs) / real B\<rceil>
      \<and> (\<forall>c\<in>set chunks. length c \<le> B)
      \<and> concat chunks = xs"
  using chunk_loop_props[OF assms, of xs 0 "[]"] ceil_div_real[OF assms, of "length xs"]
  by (auto simp: chunk_recipients_def)

theorem chunk_recipients_partition_witness:
  "(0::nat) < 2 \<and> (\<exists>chunks. chunk_recipients [1, 2, 3, 4, 5 :: nat] 2 = Some chunks
      \<and> int (length chunks) = \<lceil>real (length [1, 2, 3, 4, 5 :: nat]) / real (2::nat)\<rceil>
      \<and> (\<forall>c\<in>set chunks. length c \<le> 2)
      \<and> concat chunks = [1, 2, 3, 4, 5])"
  using chunk_recipients_partition[of 2 "[1, 2, 3, 4, 5 :: nat]"] by simp

section \<open>Properties of recipient parsing\<close>

lemma dropWhile_none: "\<forall>c\<in>set s. \<not> P c \<Longrightarrow> dropWhile P s = s"
  by (cases s) auto

lemma js_trim_id: "\<forall>c\<in>set s. \<not> is_space c \<Longrightarrow> js_trim s = s"
  by (simp add: js_trim_def dropWhile_none)

lemma is_space_sep: "is_space c \<Longrightarrow> is_sep c"
  by (simp add: is_sep_def)

lemma split_sep_pieces:
  "\<forall>c\<in>set cur. \<not> is_sep c \<Longrightarrow> t \<in> set (split_sep cur insep raw) \<Longrightarrow> \<forall>c\<in>set t. \<not> is_sep c"
proof (induction raw arbitrary: cur insep)
  case Nil
  then show ?case by simp
next
  case (Cons x xs)
  show ?case
  proof (cases "is_sep x")
    case True
    then have "t = cur \<or> t \<in> set (split_sep [] True xs)"
      using Cons.prems(2) by (simp split: if_splits)
    then show ?thesis using Cons.IH[of "[]" True] Cons.prems(1) by auto
  next
    case False
    then have "t \<in> set (split_sep (cur @ [x]) False xs)"
      using Cons.prems(2) by simp
    moreover have "\<forall>c\<in>set (cur @ [x]). \<not> is_sep c" using False Cons.prems(1) by simp
    ultimately show ?thesis using Cons.IH[of "cur @ [x]" False] by blast
  qed
qed

lemma split_sep_each:
  "(insep \<longrightarrow> cur = []) \<Longrightarrow>
   filter (\<lambda>t. t \<noteq> []) (split_sep cur insep raw) = filter (\<lambda>t. t \<noteq> []) (split_each cur raw)"
proof (induction raw arbitrary: cur insep)
  case Nil
  then show ?case by simp
next
  case (Cons x xs)
  show ?case
  proof (cases "is_sep x")
    case True
    then show ?thesis using Cons.IH[of True "[]"] Cons.prems by simp
  next
    case False
    then show ?thesis using Cons.IH[of False "cur @ [x]"] by simp
  qed
qed

lemma js_split_pieces: "t \<in> set (js_split raw) \<Longrightarrow> \<forall>c\<in>set t. \<not> is_sep c"
  unfolding js_split_def using split_sep_pieces[of "[]" t False raw] by simp

lemma tokenize_filter: "tokenize raw = filter (\<lambda>t. t \<noteq> []) (js_split raw)"
  unfolding tokenize_def
proof (rule filter_cong[OF refl])
  fix t assume "t \<in> set (js_split raw)"
  then have "\<forall>c\<in>set t. \<not> is_space c" using js_split_pieces is_space_sep by blast
  then show "(js_trim t \<noteq> []) = (t \<noteq> [])" by (simp add: js_trim_id)
qed

lemma tokenize_spec: "tokenize raw = tokens_spec raw"
  by (simp add: tokenize_filter tokens_spec_def js_split_def split_sep_each)

lemma tokenize_tokens:
  assumes "t \<in> set (tokenize raw)"
  shows "t \<noteq> [] \<and> (\<forall>c\<in>set t. \<not> is_sep c) \<and> js_trim t = t"
proof -
  from assms have t: "t \<in> set (js_split raw)" "t \<noteq> []" by (auto simp: tokenize_filter)
  then have "\<forall>c\<in>set t. \<not> is_sep c" using js_split_pieces by blast
  moreover from this have "js_trim t = t" using is_space_sep by (intro js_trim_id) blast
  ultimately show ?thesis using t by blast
qed


lemma pair_loop_spec:
  assumes "\<forall>t\<in>set ts. t \<noteq> [] \<and> js_trim t = t"
  shows "pair_loop ts i acc = acc @ pairs_spec (drop i ts)"
  using assms
proof (induction ts i acc rule: pair_loop.induct)
  case (1 tokens i recipients)
  show ?case
  proof (cases "i < length tokens")
    case False
    then show ?thesis by (subst pair_loop.simps) simp
  next
    case True
    then have ti: "tokens ! i \<noteq> []" "js_trim (tokens ! i) = tokens ! i"
      using "1.prems" by auto
    have IH: "pair_loop tokens (i + 2) (recipients @ [\<lparr>address = tokens ! i, amount = amount_at tokens (i + 1)\<rparr>])
      = (recipients @ [\<lparr>address = tokens ! i, amount = amount_at tokens (i + 1)\<rparr>]) @ pairs_spec (drop (i + 2) tokens)"
      using "1.IH"[OF True "1.prems"] ti by simp
    show ?thesis
    proof (cases "i + 1 < length tokens")
      case True
      then have tj: "tokens ! (i + 1) \<noteq> []" "js_trim (tokens ! (i + 1)) = tokens ! (i + 1)"
        using "1.prems" by auto
      have "drop i tokens = tokens ! i # tokens ! (i + 1) # drop (i + 2) tokens"
        using Cons_nth_drop_Suc[OF \<open>i < length tokens\<close>, symmetric]
          Cons_nth_drop_Suc[of "Suc i" tokens, symmetric] True by simp
      moreover have "amount_at tokens (i + 1) = tokens ! (i + 1)"
        using True tj by (simp add: amount_at_def or_zero_def)
      ultimately show ?thesis using IH \<open>i < length tokens\<close> ti
        by (subst pair_loop.simps) simp
    next
      case False
      then have "drop i tokens = [tokens ! i]" "drop (i + 2) tokens = []"
        using Cons_nth_drop_Suc[OF \<open>i < length tokens\<close>, symmetric] by simp_all
      moreover have "amount_at tokens (i + 1) = ''0''"
        using False by (simp add: amount_at_def)
      ultimately show ?thesis using IH \<open>i < length tokens\<close> ti
        by (subst pair_loop.simps) simp
    qed
  qed
qed

lemma pairs_spec_Nil: "pairs_spec ts = [] \<longleftrightarrow> ts = []"
  by (cases ts rule: pairs_spec.cases) auto

lemma pairs_spec_last:
  "odd (length ts) \<Longrightarrow> last (pairs_spec ts) = \<lparr>address = last ts, amount = ''0''\<rparr>"
  by (induction ts rule: pairs_spec.induct) (auto simp: pairs_spec_Nil)


text \<open>
  C8. The tokens of \<^verbatim>\<open>handleParse\<close> are the pieces between separator characters (line
  feed, white space, comma) with the empty pieces dropped, so no token is empty or
  contains a separator; in mode \<open>DIFF\<close> (paired) the tokens are consumed two at a time as
  address and amount, and when the number of tokens is odd the last recipient is the
  trailing address with amount \<open>''0''\<close>.
\<close>

theorem parse_paired:
  "tokenize raw = tokens_spec raw
   \<and> (\<forall>t\<in>set (tokenize raw). t \<noteq> [] \<and> (\<forall>c\<in>set t. \<not> is_sep c))
   \<and> parse_recipients DIFF same raw = pairs_spec (tokenize raw)
   \<and> (odd (length (tokenize raw)) \<longrightarrow>
        last (parse_recipients DIFF same raw)
          = \<lparr>address = last (tokenize raw), amount = ''0''\<rparr>)"
proof -
  have a: "\<forall>t\<in>set (tokenize raw). t \<noteq> [] \<and> js_trim t = t"
    using tokenize_tokens by blast
  have b: "parse_recipients DIFF same raw = pairs_spec (tokenize raw)"
    using pair_loop_spec[OF a, of 0 "[]"] by (simp add: parse_recipients_def)
  have c: "\<forall>t\<in>set (tokenize raw). t \<noteq> [] \<and> (\<forall>c\<in>set t. \<not> is_sep c)"
    using tokenize_tokens by blast
  have d: "odd (length (tokenize raw)) \<longrightarrow>
        last (parse_recipients DIFF same raw)
          = \<lparr>address = last (tokenize raw), amount = ''0''\<rparr>"
    by (simp add: b pairs_spec_last)
  show ?thesis using tokenize_spec[of raw] b c d by blast
qed

theorem parse_paired_witness:
  "odd (length (tokenize ''a 1, b 2 c'')) \<and> parse_recipients DIFF ''9'' ''a 1, b 2 c''
      = [\<lparr>address = ''a'', amount = ''1''\<rparr>, \<lparr>address = ''b'', amount = ''2''\<rparr>,
         \<lparr>address = ''c'', amount = ''0''\<rparr>]
   \<and> last (parse_recipients DIFF ''9'' ''a 1, b 2 c'') = \<lparr>address = ''c'', amount = ''0''\<rparr>"
proof -
  have t: "tokenize ''a 1, b 2 c'' = [''a'', ''1'', ''b'', ''2'', ''c'']" by code_simp
  have p: "parse_recipients DIFF ''9'' ''a 1, b 2 c'' = pairs_spec (tokenize ''a 1, b 2 c'')"
    and l: "odd (length (tokenize ''a 1, b 2 c'')) \<longrightarrow>
        last (parse_recipients DIFF ''9'' ''a 1, b 2 c'')
          = \<lparr>address = last (tokenize ''a 1, b 2 c''), amount = ''0''\<rparr>"
    using parse_paired[of "''a 1, b 2 c''" "''9''"] by blast+
  have o: "odd (length (tokenize ''a 1, b 2 c''))" by (simp add: t)
  show ?thesis using o l p by (simp add: t)
qed


text \<open>
  C7. When the parsed recipient list is longer than the cap \<open>MAX_BATCH_SIZE = 100\<close>,
  \<^verbatim>\<open>handleParse\<close> stores exactly its first 100 entries and sets the limit warning;
  otherwise it stores the full list and clears the status line.
\<close>

theorem handleParse_cap:
  "(length (parse_recipients (mode a) (sameAmount a) raw) > MAX_BATCH_SIZE \<longrightarrow>
      parsedRecipients (handleParse a raw)
        = take MAX_BATCH_SIZE (parse_recipients (mode a) (sameAmount a) raw)
      \<and> statusMsg (handleParse a raw) = MsgLimitExceeded MAX_BATCH_SIZE)
   \<and> (length (parse_recipients (mode a) (sameAmount a) raw) \<le> MAX_BATCH_SIZE \<longrightarrow>
      parsedRecipients (handleParse a raw) = parse_recipients (mode a) (sameAmount a) raw
      \<and> statusMsg (handleParse a raw) = MsgNone)"
  by (simp add: handleParse_def Let_def slice_def)

theorem handleParse_cap_witness:
  "length (parse_recipients (mode (example_app\<lparr>sameAmount := ''1''\<rparr>))
             (sameAmount (example_app\<lparr>sameAmount := ''1''\<rparr>)) (concat (replicate 101 ''ab '')))
      > MAX_BATCH_SIZE
   \<and> parsedRecipients (handleParse (example_app\<lparr>sameAmount := ''1''\<rparr>) (concat (replicate 101 ''ab '')))
        = take MAX_BATCH_SIZE (parse_recipients SAME ''1'' (concat (replicate 101 ''ab '')))
   \<and> statusMsg (handleParse (example_app\<lparr>sameAmount := ''1''\<rparr>) (concat (replicate 101 ''ab '')))
        = MsgLimitExceeded MAX_BATCH_SIZE
   \<and> length (parse_recipients (mode (example_app\<lparr>mode := DIFF\<rparr>))
               (sameAmount (example_app\<lparr>mode := DIFF\<rparr>)) ''ab 1 cd'') \<le> MAX_BATCH_SIZE
   \<and> parsedRecipients (handleParse (example_app\<lparr>mode := DIFF\<rparr>) ''ab 1 cd'')
        = parse_recipients DIFF [] ''ab 1 cd''
   \<and> statusMsg (handleParse (example_app\<lparr>mode := DIFF\<rparr>) ''ab 1 cd'') = MsgNone"
proof -
  have big: "length (parse_recipients SAME ''1'' (concat (replicate 101 ''ab ''))) = 101"
    by code_simp
  have small: "length (parse_recipients DIFF [] ''ab 1 cd'') = 2"
    by code_simp
  have b: "length (parse_recipients (mode (example_app\<lparr>sameAmount := ''1''\<rparr>))
             (sameAmount (example_app\<lparr>sameAmount := ''1''\<rparr>)) (concat (replicate 101 ''ab '')))
      > MAX_BATCH_SIZE"
    by (simp add: big MAX_BATCH_SIZE_def example_app_def)
  have s: "length (parse_recipients (mode (example_app\<lparr>mode := DIFF\<rparr>))
               (sameAmount (example_app\<lparr>mode := DIFF\<rparr>)) ''ab 1 cd'') \<le> MAX_BATCH_SIZE"
    by (simp add: small MAX_BATCH_SIZE_def example_app_def)
  show ?thesis
    using handleParse_cap[of "example_app\<lparr>sameAmount := ''1''\<rparr>" "concat (replicate 101 ''ab '')"]
      handleParse_cap[of "example_app\<lparr>mode := DIFF\<rparr>" "''ab 1 cd''"] b s
    by (simp add: example_app_def)
qed

section \<open>Properties of confirmation polling\<close>

lemma call_events: "call f st = (r, st1) \<Longrightarrow> events st1 = events st \<and> clock st \<le> clock st1"
  by (auto simp: call_def split: prod.splits)

lemma confirm_loop_trace:
  assumes "confirm_loop gs sg c t start st = (res, st')" "start \<le> clock st"
  shows "\<exists>rs tl. events st' = events st @ pending_polls sg rs @ tl
      \<and> (\<forall>r\<in>set rs. poll_outcome c r = Pending)
      \<and> ((tl = [] \<and> res = timeout_result \<and> start + t \<le> clock st')
         \<or> (\<exists>r. tl = [Polled sg r] \<and> poll_outcome c r = Done res))"
  using assms
proof (induction gs sg c t start st rule: confirm_loop.induct)
  case (1 gs sg c t start st)
  show ?case
  proof (cases "clock st - start < t")
    case False
    then have "res = timeout_result" "st' = st"
      using "1.prems"(1) by (simp_all add: confirm_loop.simps)
    moreover have "start + t \<le> clock st" using False "1.prems"(2) by arith
    ultimately have "events st' = events st @ pending_polls sg [] @ []
      \<and> (\<forall>r\<in>set []. poll_outcome c r = Pending)
      \<and> ([] = [] \<and> res = timeout_result \<and> start + t \<le> clock st')"
      by (simp add: pending_polls_def)
    then show ?thesis by blast
  next
    case True
    obtain r st1 where c1: "call (gs sg) st = (r, st1)" by (cases "call (gs sg) st")
    define st2 where "st2 = log_event (Polled sg r) st1"
    have ev2: "events st2 = events st @ [Polled sg r]" and ck2: "clock st \<le> clock st2"
      using call_events[OF c1] by (simp_all add: st2_def log_event_def)
    show ?thesis
    proof (cases "poll_outcome c r")
      case (Done res0)
      then have "res = res0" "st' = st2"
        using "1.prems"(1) True c1 by (simp_all add: confirm_loop.simps[of gs sg c t start st] st2_def)
      then have "events st' = events st @ pending_polls sg [] @ [Polled sg r]
        \<and> (\<forall>r\<in>set []. poll_outcome c r = Pending)
        \<and> (\<exists>r'. [Polled sg r] = [Polled sg r'] \<and> poll_outcome c r' = Done res)"
        using ev2 Done by (simp add: pending_polls_def)
      then show ?thesis by blast
    next
      case Pending
      let ?st3 = "sleep 2000 st2"
      have rec: "confirm_loop gs sg c t start ?st3 = (res, st')"
        using "1.prems"(1) True c1 Pending by (simp add: confirm_loop.simps[of gs sg c t start st] st2_def)
      have ck3: "start \<le> clock ?st3" using ck2 "1.prems"(2) by (simp add: sleep_def)
      have ev3: "events ?st3 = events st @ [Polled sg r, Slept 2000]"
        using ev2 by (simp add: sleep_def)
      from "1.IH"[OF True c1[symmetric] refl st2_def Pending rec ck3]
      obtain rs tl where IH: "events st' = events ?st3 @ pending_polls sg rs @ tl"
        "\<forall>r\<in>set rs. poll_outcome c r = Pending"
        "(tl = [] \<and> res = timeout_result \<and> start + t \<le> clock st')
         \<or> (\<exists>r. tl = [Polled sg r] \<and> poll_outcome c r = Done res)" by blast
      have "events st' = events st @ pending_polls sg (r # rs) @ tl"
        using IH(1) ev3 by (simp add: pending_polls_def)
      moreover have "\<forall>r\<in>set (r # rs). poll_outcome c r = Pending" using IH(2) Pending by simp
      ultimately show ?thesis using IH(3) by blast
    qed
  qed
qed

lemma poll_outcome_kinds:
  "poll_outcome c r = Pending \<longleftrightarrow> still_pending c r"
  "poll_outcome c r = Done res \<longleftrightarrow>
     (\<exists>j. reports_failure r j
           \<and> res = \<lparr>success = False, error = Some (''Transaction failed: '' @ j)\<rparr>)
     \<or> (reports_success c r \<and> res = \<lparr>success = True, error = None\<rparr>)"
  by (cases "(c, r)" rule: poll_outcome.cases;
      auto simp: failed_result_def ok_result_def split: option.splits)+

lemma response_kinds:
  "(still_pending c r \<or> (\<exists>j. reports_failure r j) \<or> reports_success c r)
   \<and> \<not> (still_pending c r \<and> reports_failure r j)
   \<and> \<not> (still_pending c r \<and> reports_success c r)
   \<and> \<not> (reports_failure r j \<and> reports_success c r)"
  by (cases "(c, r)" rule: still_pending.cases) auto

lemma confirm_first_poll:
  assumes "0 < t"
  shows "confirmTransactionWithTimeout gs sg c t st =
     (case poll_outcome c (fst (call (gs sg) st)) of
        Done res \<Rightarrow> (res, log_event (Polled sg (fst (call (gs sg) st))) (snd (call (gs sg) st)))
      | Pending \<Rightarrow> confirm_loop gs sg c t (clock st)
          (sleep 2000 (log_event (Polled sg (fst (call (gs sg) st))) (snd (call (gs sg) st)))))"
proof -
  obtain r st1 where c1: "call (gs sg) st = (r, st1)" by (cases "call (gs sg) st")
  show ?thesis using assms
    by (simp add: confirmTransactionWithTimeout_def confirm_loop.simps[of gs sg c t "clock st" st] c1
        Let_def split: poll.splits)
qed

text \<open>
  C9. A call of \<^verbatim>\<open>confirmTransactionWithTimeout\<close> always returns, and what it did is a
  run of polls whose responses were all pending (a thrown request, a missing or empty
  status list, a \<open>null\<close> status, or a status without error below the requested level),
  each followed by the 2000 ms wait, and then one of three endings: the timeout has
  passed on the clock and the result is
  \<^verbatim>\<open>{ success: false, error: 'Transaction confirmation timeout' }\<close>; or the next poll
  reports an execution error \<open>j\<close> and the result is
  \<^verbatim>\<open>{ success: false, error: 'Transaction failed: ' + j }\<close>; or the next poll reports the
  requested commitment or \<open>finalized\<close> without error and the result is
  \<^verbatim>\<open>{ success: true }\<close>. Every response is of exactly one of the three kinds, so a
  poll that reports an execution error always ends the wait with the failure result and
  never with the timeout result. In particular, with a positive timeout, a first poll
  that reports an error or success returns that result at once, and a first poll that
  is pending waits 2000 ms and goes on polling against the same deadline.
\<close>

theorem confirm_outcomes:
  assumes "confirmTransactionWithTimeout gs sg c t st = (res, st')"
  shows "(\<exists>rs. (\<forall>r\<in>set rs. still_pending c r) \<and>
      ((res = \<lparr>success = False, error = Some ''Transaction confirmation timeout''\<rparr>
          \<and> events st' = events st @ pending_polls sg rs
          \<and> clock st + t \<le> clock st')
       \<or> (\<exists>r j. reports_failure r j
            \<and> res = \<lparr>success = False, error = Some (''Transaction failed: '' @ j)\<rparr>
            \<and> events st' = events st @ pending_polls sg rs @ [Polled sg r])
       \<or> (\<exists>r. reports_success c r
            \<and> res = \<lparr>success = True, error = None\<rparr>
            \<and> events st' = events st @ pending_polls sg rs @ [Polled sg r])))
    \<and> (\<forall>r j. (still_pending c r \<or> (\<exists>j. reports_failure r j) \<or> reports_success c r)
          \<and> \<not> (still_pending c r \<and> reports_failure r j)
          \<and> \<not> (still_pending c r \<and> reports_success c r)
          \<and> \<not> (reports_failure r j \<and> reports_success c r))
    \<and> (\<forall>j. 0 < t \<and> reports_failure (fst (call (gs sg) st)) j \<longrightarrow>
          res = \<lparr>success = False, error = Some (''Transaction failed: '' @ j)\<rparr>)
    \<and> (0 < t \<and> reports_success c (fst (call (gs sg) st)) \<longrightarrow>
          res = \<lparr>success = True, error = None\<rparr>)
    \<and> (0 < t \<and> still_pending c (fst (call (gs sg) st)) \<longrightarrow>
          (res, st') = confirm_loop gs sg c t (clock st)
             (sleep 2000 (log_event (Polled sg (fst (call (gs sg) st))) (snd (call (gs sg) st)))))
    \<and> (t = 0 \<longrightarrow>
          res = \<lparr>success = False, error = Some ''Transaction confirmation timeout''\<rparr> \<and> st' = st)"
proof -
  from confirm_loop_trace[OF assms[unfolded confirmTransactionWithTimeout_def] order_refl]
  obtain rs tl where tr: "events st' = events st @ pending_polls sg rs @ tl"
    and pend: "\<forall>r\<in>set rs. poll_outcome c r = Pending"
    and fin: "(tl = [] \<and> res = timeout_result \<and> clock st + t \<le> clock st')
         \<or> (\<exists>r. tl = [Polled sg r] \<and> poll_outcome c r = Done res)" by blast
  have pend': "\<forall>r\<in>set rs. still_pending c r" using pend poll_outcome_kinds(1) by blast
  have ending: "(res = \<lparr>success = False, error = Some ''Transaction confirmation timeout''\<rparr>
          \<and> events st' = events st @ pending_polls sg rs
          \<and> clock st + t \<le> clock st')
       \<or> (\<exists>r j. reports_failure r j
            \<and> res = \<lparr>success = False, error = Some (''Transaction failed: '' @ j)\<rparr>
            \<and> events st' = events st @ pending_polls sg rs @ [Polled sg r])
       \<or> (\<exists>r. reports_success c r
            \<and> res = \<lparr>success = True, error = None\<rparr>
            \<and> events st' = events st @ pending_polls sg rs @ [Polled sg r])"
    using fin
  proof
    assume "tl = [] \<and> res = timeout_result \<and> clock st + t \<le> clock st'"
    then show ?thesis using tr by (simp add: timeout_result_def)
  next
    assume "\<exists>r. tl = [Polled sg r] \<and> poll_outcome c r = Done res"
    then obtain r where r: "tl = [Polled sg r]" "poll_outcome c r = Done res" by blast
    have e: "events st' = events st @ pending_polls sg rs @ [Polled sg r]"
      using tr r(1) by simp
    from r(2)[unfolded poll_outcome_kinds(2)] show ?thesis using e by blast
  qed
  have first: "\<exists>rs. (\<forall>r\<in>set rs. still_pending c r) \<and>
      ((res = \<lparr>success = False, error = Some ''Transaction confirmation timeout''\<rparr>
          \<and> events st' = events st @ pending_polls sg rs
          \<and> clock st + t \<le> clock st')
       \<or> (\<exists>r j. reports_failure r j
            \<and> res = \<lparr>success = False, error = Some (''Transaction failed: '' @ j)\<rparr>
            \<and> events st' = events st @ pending_polls sg rs @ [Polled sg r])
       \<or> (\<exists>r. reports_success c r
            \<and> res = \<lparr>success = True, error = None\<rparr>
            \<and> events st' = events st @ pending_polls sg rs @ [Polled sg r]))"
    using pend' ending by blast
  let ?r0 = "fst (call (gs sg) st)"
  have fp: "0 < t \<Longrightarrow> (res, st') =
     (case poll_outcome c ?r0 of
        Done res \<Rightarrow> (res, log_event (Polled sg ?r0) (snd (call (gs sg) st)))
      | Pending \<Rightarrow> confirm_loop gs sg c t (clock st)
          (sleep 2000 (log_event (Polled sg ?r0) (snd (call (gs sg) st)))))"
    using confirm_first_poll[of t gs sg c st] assms by simp
  have f: "\<forall>j. 0 < t \<and> reports_failure ?r0 j \<longrightarrow>
          res = \<lparr>success = False, error = Some (''Transaction failed: '' @ j)\<rparr>"
  proof (intro allI impI)
    fix j assume a: "0 < t \<and> reports_failure ?r0 j"
    then have "poll_outcome c ?r0 = Done \<lparr>success = False, error = Some (''Transaction failed: '' @ j)\<rparr>"
      using poll_outcome_kinds(2) by blast
    then show "res = \<lparr>success = False, error = Some (''Transaction failed: '' @ j)\<rparr>"
      using fp a by simp
  qed
  have s: "0 < t \<and> reports_success c ?r0 \<longrightarrow> res = \<lparr>success = True, error = None\<rparr>"
  proof
    assume a: "0 < t \<and> reports_success c ?r0"
    then have "poll_outcome c ?r0 = Done \<lparr>success = True, error = None\<rparr>"
      using poll_outcome_kinds(2) by blast
    then show "res = \<lparr>success = True, error = None\<rparr>" using fp a by simp
  qed
  have p: "0 < t \<and> still_pending c ?r0 \<longrightarrow>
          (res, st') = confirm_loop gs sg c t (clock st)
             (sleep 2000 (log_event (Polled sg ?r0) (snd (call (gs sg) st))))"
  proof
    assume a: "0 < t \<and> still_pending c ?r0"
    then have "poll_outcome c ?r0 = Pending" using poll_outcome_kinds(1) by blast
    then show "(res, st') = confirm_loop gs sg c t (clock st)
             (sleep 2000 (log_event (Polled sg ?r0) (snd (call (gs sg) st))))"
      using fp a by simp
  qed
  have z: "t = 0 \<longrightarrow>
          res = \<lparr>success = False, error = Some ''Transaction confirmation timeout''\<rparr> \<and> st' = st"
    using assms
    by (auto simp: confirmTransactionWithTimeout_def confirm_loop.simps[of gs sg c 0 "clock st" st]
        timeout_result_def)
  show ?thesis using first response_kinds f s p z by (intro conjI allI) blast+
qed

theorem confirm_outcomes_witness:
  "confirmTransactionWithTimeout example_failing ''5Gx'' ''confirmed'' 90000 (example_node 1)
     = (\<lparr>success = False, error = Some ''Transaction failed: {InstructionError:[0,{Custom:1}]}''\<rparr>,
        \<lparr>world = 2, clock = 1300,
         events = [Polled ''5Gx'' (Inr (Some [Some \<lparr>err = Some ''{InstructionError:[0,{Custom:1}]}'',
                     confirmationStatus = Some ''confirmed''\<rparr>]))]\<rparr>)
   \<and> (0::nat) < 90000
   \<and> reports_failure (fst (call (example_failing ''5Gx'') (example_node 1)))
         ''{InstructionError:[0,{Custom:1}]}''
   \<and> confirmTransactionWithTimeout example_statuses ''5Gx'' ''confirmed'' 90000 (example_node 0)
     = (\<lparr>success = True, error = None\<rparr>,
        \<lparr>world = 2, clock = 3600,
         events = [Polled ''5Gx'' (Inr (Some [None])), Slept 2000,
           Polled ''5Gx'' (Inr (Some [Some \<lparr>err = None, confirmationStatus = Some ''confirmed''\<rparr>]))]\<rparr>)
   \<and> still_pending ''confirmed'' (fst (call (example_statuses ''5Gx'') (example_node 0)))
   \<and> reports_success ''confirmed'' (fst (call (example_statuses ''5Gx'') (example_node 1)))
   \<and> confirmTransactionWithTimeout example_unknown ''5Gx'' ''confirmed'' 3000 (example_node 0)
     = (\<lparr>success = False, error = Some ''Transaction confirmation timeout''\<rparr>,
        \<lparr>world = 2, clock = 5600,
         events = [Polled ''5Gx'' (Inr (Some [None])), Slept 2000,
           Polled ''5Gx'' (Inr (Some [None])), Slept 2000]\<rparr>)
   \<and> (\<exists>rs. rs \<noteq> [] \<and> (\<forall>r\<in>set rs. still_pending ''confirmed'' r)
        \<and> [Polled ''5Gx'' (Inr (Some [None])), Slept 2000,
            Polled ''5Gx'' (Inr (Some [None])), Slept 2000] = pending_polls ''5Gx'' rs)"
proof -
  let ?fail = "\<lparr>success = False, error = Some ''Transaction failed: {InstructionError:[0,{Custom:1}]}''\<rparr>"
  let ?tmo = "\<lparr>success = False, error = Some ''Transaction confirmation timeout''\<rparr>"
  let ?ev = "[Polled ''5Gx'' (Inr (Some [None])), Slept 2000,
            Polled ''5Gx'' (Inr (Some [None])), Slept 2000]"
  have R1: "confirmTransactionWithTimeout example_failing ''5Gx'' ''confirmed'' 90000 (example_node 1)
     = (?fail,
        \<lparr>world = 2, clock = 1300,
         events = [Polled ''5Gx'' (Inr (Some [Some \<lparr>err = Some ''{InstructionError:[0,{Custom:1}]}'',
                     confirmationStatus = Some ''confirmed''\<rparr>]))]\<rparr>)"
    by (simp add: confirmTransactionWithTimeout_def confirm_loop.simps call_def sleep_def
        log_event_def example_failing_def example_node_def failed_result_def)
  have R2: "confirmTransactionWithTimeout example_statuses ''5Gx'' ''confirmed'' 90000 (example_node 0)
     = (\<lparr>success = True, error = None\<rparr>,
        \<lparr>world = 2, clock = 3600,
         events = [Polled ''5Gx'' (Inr (Some [None])), Slept 2000,
           Polled ''5Gx'' (Inr (Some [Some \<lparr>err = None, confirmationStatus = Some ''confirmed''\<rparr>]))]\<rparr>)"
    by (simp add: confirmTransactionWithTimeout_def confirm_loop.simps call_def sleep_def
        log_event_def example_statuses_def example_node_def ok_result_def)
  have R3: "confirmTransactionWithTimeout example_unknown ''5Gx'' ''confirmed'' 3000 (example_node 0)
     = (?tmo, \<lparr>world = 2, clock = 5600, events = ?ev\<rparr>)"
    by (simp add: confirmTransactionWithTimeout_def confirm_loop.simps call_def sleep_def
        log_event_def example_unknown_def example_node_def timeout_result_def)
  have h1: "reports_failure (fst (call (example_failing ''5Gx'') (example_node 1)))
         ''{InstructionError:[0,{Custom:1}]}''"
    by (simp add: call_def example_failing_def example_node_def)
  have h2: "still_pending ''confirmed'' (fst (call (example_statuses ''5Gx'') (example_node 0)))"
    by (simp add: call_def example_statuses_def example_node_def)
  have h3: "reports_success ''confirmed'' (fst (call (example_statuses ''5Gx'') (example_node 1)))"
    by (simp add: call_def example_statuses_def example_node_def)
  from confirm_outcomes[OF R3] obtain rs where rs: "\<forall>r\<in>set rs. still_pending ''confirmed'' r"
    and ending: "(?tmo = ?tmo \<and> events \<lparr>world = 2::nat, clock = 5600, events = ?ev\<rparr>
            = events (example_node 0) @ pending_polls ''5Gx'' rs
          \<and> clock (example_node 0) + 3000 \<le> clock \<lparr>world = 2::nat, clock = 5600, events = ?ev\<rparr>)
       \<or> (\<exists>r j. reports_failure r j
            \<and> ?tmo = \<lparr>success = False, error = Some (''Transaction failed: '' @ j)\<rparr>
            \<and> events \<lparr>world = 2::nat, clock = 5600, events = ?ev\<rparr>
                = events (example_node 0) @ pending_polls ''5Gx'' rs @ [Polled ''5Gx'' r])
       \<or> (\<exists>r. reports_success ''confirmed'' r
            \<and> ?tmo = \<lparr>success = True, error = None\<rparr>
            \<and> events \<lparr>world = 2::nat, clock = 5600, events = ?ev\<rparr>
                = events (example_node 0) @ pending_polls ''5Gx'' rs @ [Polled ''5Gx'' r])"
    by (elim conjE exE) (rule that)
  from ending have e: "?ev = pending_polls ''5Gx'' rs" by (auto simp: example_node_def)
  then have "rs \<noteq> []" by (auto simp: pending_polls_def)
  then have "\<exists>rs. rs \<noteq> [] \<and> (\<forall>r\<in>set rs. still_pending ''confirmed'' r)
        \<and> ?ev = pending_polls ''5Gx'' rs" using rs e by blast
  moreover from confirm_outcomes[OF R1] h1
  have "?fail = \<lparr>success = False, error = Some (''Transaction failed: '' @ ''{InstructionError:[0,{Custom:1}]}'')\<rparr>"
    by blast
  ultimately show ?thesis using R1 R2 R3 h1 h2 h3 by (intro conjI) simp_all
qed

section \<open>Evaluating the definitions on the example environment\<close>

lemmas run_defs =
  handleSend_def handleMultiTokenSend_def validRecipients_def validRecipientsMulti_def
  selectedTokens_def token_chosen_def recipientsWithAmount_def isValidAddress_def
  fail_session_def or_else_def or_zero_def
  send_single_def send_token_def buildMultiSendTransaction_def resolve_accounts_def
  chunk_recipients_def chunk_loop.simps slice_def slice_last_def
  MAX_TX_SIZE_SOL_def MAX_TX_SIZE_SPL_def SOL_MINT_def TOKEN_PROGRAM_ID_def ALCHEMY_enabled_def
  ataChunkSize_def build_ata_txs_def create_instruction_def transfer_instruction_def
  amountBig_def new_Transaction_def plan_of_def derive_work_def
  send_transfer_def send_ata_batch_def requestAlchemyFeePayer_def fee_failure_def
  pause_between_def ata_batch_failed_def
  call_def log_event_def sleep_def
  confirmTransactionWithTimeout_def confirm_loop.simps
  failed_result_def ok_result_def timeout_result_def
  show_nat.simps

lemmas example_defs =
  example_env_def example_app_def example_sys_def example_world_def example_send_def
  example_parseFloat_def read_unsigned_def read_exponent_def starts_with_def digit_of_def
  scale10_def is_space_def

section \<open>Properties of account resolution\<close>








section \<open>Properties of the amount conversion\<close>

lemma amountBig_Inr_iff:
  "(\<exists>n. amountBig env amt dec = Inr n)
     \<longleftrightarrow> (\<exists>q. js_mul (fl_mul env) (parseFloat env amt) (pow10 env dec) = Fin q)"
  by (cases "js_mul (fl_mul env) (parseFloat env amt) (pow10 env dec)")
     (auto simp: amountBig_def)

lemma amountBig_NaN:
  "parseFloat env amt = NaN \<Longrightarrow> \<exists>m. amountBig env amt dec = Inl (RangeError m)"
  by (simp add: amountBig_def)

lemma amountBig_Inf:
  "parseFloat env amt = PosInf \<Longrightarrow> pow10 env dec = Fin p \<Longrightarrow> p > 0
     \<Longrightarrow> \<exists>m. amountBig env amt dec = Inl (RangeError m)"
  by (simp add: amountBig_def)

lemma js_gt0_iff: "js_gt0 x \<longleftrightarrow> x = PosInf \<or> (\<exists>q. x = Fin q \<and> q > 0)"
  by (cases x) auto

lemma transfer_instructions_NaN:
  "r \<in> set rs \<Longrightarrow> parseFloat env (amount r) = NaN
     \<Longrightarrow> \<exists>e. transfer_instructions env sender tokenMint dec pid rs = Inl e"
proof (induction rs)
  case Nil then show ?case by simp
next
  case (Cons x xs)
  show ?case
  proof (cases "x = r")
    case True
    obtain m where "amountBig env (amount x) dec = Inl (RangeError m)"
      using amountBig_NaN Cons.prems(2) True by blast
    then have "\<exists>e. transfer_instruction env sender tokenMint dec pid x = Inl e"
      by (simp add: transfer_instruction_def split: sum.splits)
    then show ?thesis by auto
  next
    case False
    then obtain e where "transfer_instructions env sender tokenMint dec pid xs = Inl e"
      using Cons by auto
    then show ?thesis by (simp split: sum.splits)
  qed
qed

lemma build_transfer_txs_NaN:
  "r \<in> set (concat chunks) \<Longrightarrow> parseFloat env (amount r) = NaN
     \<Longrightarrow> \<exists>e. build_transfer_txs env sender tokenMint dec pid chunks = Inl e"
proof (induction chunks)
  case Nil then show ?case by simp
next
  case (Cons c cs)
  show ?case
  proof (cases "r \<in> set c")
    case True
    then obtain e where "transfer_instructions env sender tokenMint dec pid c = Inl e"
      using transfer_instructions_NaN Cons.prems(2) by blast
    then show ?thesis by simp
  next
    case False
    then obtain e where "build_transfer_txs env sender tokenMint dec pid cs = Inl e"
      using Cons by auto
    then show ?thesis by (simp split: sum.splits)
  qed
qed


lemma chunk_recipients_concat:
  "0 < B \<Longrightarrow> concat (the (chunk_recipients xs B)) = xs"
  using chunk_loop_props[of B xs 0 "[]"] by (auto simp: chunk_recipients_def)

lemma build_NaN:
  assumes "r \<in> set recipients" "parseFloat env (amount r) = NaN"
  shows "\<exists>e. fst (buildMultiSendTransaction env sender recipients tokenMint dec pid st) = Inl e"
proof -
  define B where "B = (if tokenMint = SOL_MINT then MAX_TX_SIZE_SOL else MAX_TX_SIZE_SPL)"
  have "0 < B" by (simp add: B_def MAX_TX_SIZE_SOL_def MAX_TX_SIZE_SPL_def)
  then have "concat (the (chunk_recipients recipients B)) = recipients"
    by (rule chunk_recipients_concat)
  then have "r \<in> set (concat (the (chunk_recipients recipients B)))"
    using assms(1) by simp
  from build_transfer_txs_NaN[OF this assms(2), of sender tokenMint dec pid]
  obtain e where e: "build_transfer_txs env sender tokenMint dec pid
      (the (chunk_recipients recipients B)) = Inl e" by blast
  obtain x st1 where rs: "resolve_accounts env tokenMint pid recipients st = (x, st1)"
    by (cases "resolve_accounts env tokenMint pid recipients st")
  show ?thesis
  proof (cases x)
    case (Inl e')
    then show ?thesis using rs by (simp add: buildMultiSendTransaction_def Let_def)
  next
    case (Inr p)
    then show ?thesis using rs e
      by (cases p) (simp add: buildMultiSendTransaction_def Let_def B_def)
  qed
qed

text \<open>
  C10 (amended). The conversion of an amount throws a \<^verbatim>\<open>RangeError\<close> whenever the amount
  text parses to \<open>NaN\<close>, and it returns exactly when the product of the parsed amount and
  \<open>10 ^ decimals\<close> is a finite number; the builder does not return when the amount of
  some recipient parses to \<open>NaN\<close>. The filter of the single-asset send and the per-token
  check of the multi-asset send establish that every dispatched amount parses to a number
  greater than zero: a positive finite number or positive infinity. They exclude \<open>NaN\<close>,
  and they do not exclude positive infinity, for which the conversion throws.
\<close>

theorem amount_conversion_total:
  "(parseFloat env amt = NaN \<longrightarrow> (\<exists>m. amountBig env amt dec = Inl (RangeError m)))
   \<and> ((\<exists>n. amountBig env amt dec = Inr n)
        \<longleftrightarrow> (\<exists>q. js_mul (fl_mul env) (parseFloat env amt) (pow10 env dec) = Fin q))
   \<and> ((\<exists>r\<in>set recipients. parseFloat env (amount r) = NaN) \<longrightarrow>
        (\<exists>e. fst (buildMultiSendTransaction env sender recipients tokenMint dec pid st) = Inl e))
   \<and> (\<forall>r\<in>set (validRecipients env a).
          parseFloat env (amount r) = PosInf \<or> (\<exists>q. parseFloat env (amount r) = Fin q \<and> q > 0))
   \<and> (\<forall>t\<in>set (selectedTokens env a). \<forall>r\<in>set (recipientsWithAmount t rs).
          parseFloat env (amount r) = PosInf \<or> (\<exists>q. parseFloat env (amount r) = Fin q \<and> q > 0))"
proof -
  have 4: "\<forall>r\<in>set (validRecipients env a).
          parseFloat env (amount r) = PosInf \<or> (\<exists>q. parseFloat env (amount r) = Fin q \<and> q > 0)"
    by (auto simp: validRecipients_def js_gt0_iff)
  have 5: "\<forall>t\<in>set (selectedTokens env a). \<forall>r\<in>set (recipientsWithAmount t rs).
          parseFloat env (amount r) = PosInf \<or> (\<exists>q. parseFloat env (amount r) = Fin q \<and> q > 0)"
    by (auto simp: selectedTokens_def token_chosen_def recipientsWithAmount_def or_zero_def js_gt0_iff
        split: option.splits)
  show ?thesis using amountBig_NaN[of env amt dec] amountBig_Inr_iff[of env amt dec]
      build_NaN[of _ recipients env sender tokenMint dec pid st] 4 5 by blast
qed

theorem amount_conversion_total_witness:
  "parseFloat example_env ''abc'' = NaN
   \<and> (\<exists>m. amountBig example_env ''abc'' 9 = Inl (RangeError m))
   \<and> (\<exists>r\<in>set [\<lparr>address = ''Alice111'', amount = ''abc''\<rparr>]. parseFloat example_env (amount r) = NaN)
   \<and> (\<exists>e. fst (buildMultiSendTransaction example_env ''Sender1111''
                 [\<lparr>address = ''Alice111'', amount = ''abc''\<rparr>] SOL_MINT 9 TOKEN_PROGRAM_ID example_sys)
            = Inl e)
   \<and> validRecipients example_env
        (example_app\<lparr>parsedRecipients := [\<lparr>address = ''Alice111'', amount = ''0.5''\<rparr>]\<rparr>)
        = [\<lparr>address = ''Alice111'', amount = ''0.5''\<rparr>]
   \<and> (parseFloat example_env ''0.5'' = PosInf \<or> (\<exists>q. parseFloat example_env ''0.5'' = Fin q \<and> q > 0))
   \<and> selectedTokens example_env
        (example_app\<lparr>tokenAccounts := [\<lparr>mint = ''MintAAAA'', decimals = 6, symbol = ''AAA'',
            selected = True, amountToSend = Some ''2'', programId = None\<rparr>]\<rparr>)
        = [\<lparr>mint = ''MintAAAA'', decimals = 6, symbol = ''AAA'',
            selected = True, amountToSend = Some ''2'', programId = None\<rparr>]
   \<and> (parseFloat example_env ''2'' = PosInf \<or> (\<exists>q. parseFloat example_env ''2'' = Fin q \<and> q > 0))"
proof -
  let ?a = "example_app\<lparr>parsedRecipients := [\<lparr>address = ''Alice111'', amount = ''0.5''\<rparr>]\<rparr>"
  let ?t = "\<lparr>mint = ''MintAAAA'', decimals = 6, symbol = ''AAA'',
            selected = True, amountToSend = Some ''2'', programId = None\<rparr>"
  let ?a' = "?a\<lparr>tokenAccounts := [?t]\<rparr>"
  have nan: "parseFloat example_env ''abc'' = NaN" by (simp add: run_defs example_defs)
  have v: "validRecipients example_env ?a' = [\<lparr>address = ''Alice111'', amount = ''0.5''\<rparr>]"
    by (simp add: run_defs example_defs)
  have v0: "validRecipients example_env ?a = [\<lparr>address = ''Alice111'', amount = ''0.5''\<rparr>]"
    by (simp add: run_defs example_defs)
  have t: "selectedTokens example_env ?a' = [?t]" by (simp add: run_defs example_defs)
  have t0: "selectedTokens example_env (example_app\<lparr>tokenAccounts := [?t]\<rparr>) = [?t]" by (simp add: run_defs example_defs)
  have ra: "recipientsWithAmount ?t [\<lparr>address = ''Alice111'', amount = ''0.5''\<rparr>]
      = [\<lparr>address = ''Alice111'', amount = ''2''\<rparr>]" by (simp add: run_defs example_defs)
  from amount_conversion_total[of example_env "''abc''" 9
      "[\<lparr>address = ''Alice111'', amount = ''abc''\<rparr>]" "''Sender1111''" SOL_MINT TOKEN_PROGRAM_ID
      example_sys ?a' "[\<lparr>address = ''Alice111'', amount = ''0.5''\<rparr>]"]
  show ?thesis using nan v0 t0 by (simp add: v t ra)
qed

text \<open>
  The claim as stated fails: the amount text \<open>Infinity\<close> passes the filter of the
  single-asset send, and its conversion throws, so the send ends in \<open>ERROR\<close>.
\<close>

theorem infinite_amount_passes_filter:
  "validRecipients example_env
      (example_app\<lparr>parsedRecipients := [\<lparr>address = ''Alice111'', amount = ''Infinity''\<rparr>]\<rparr>)
     = [\<lparr>address = ''Alice111'', amount = ''Infinity''\<rparr>]
   \<and> amountBig example_env ''Infinity'' 9
     = Inl (RangeError ''The number Infinity cannot be converted to a BigInt because it is not an integer'')
   \<and> fst (handleSend example_env
        (example_app\<lparr>parsedRecipients := [\<lparr>address = ''Alice111'', amount = ''Infinity''\<rparr>]\<rparr>)
        example_sys)
     = example_app\<lparr>parsedRecipients := [\<lparr>address = ''Alice111'', amount = ''Infinity''\<rparr>],
         status := ERROR,
         statusMsg := MsgError ''The number Infinity cannot be converted to a BigInt because it is not an integer''\<rparr>"
  by (simp add: run_defs example_defs)

section \<open>Properties of the send handlers\<close>

text \<open>
  C3 (amended). Whenever a run of a send handler ends in the phase \<open>ERROR\<close>, the
  signature list of the session is empty: the handler clears it when the run starts and
  sets it only together with \<open>SUCCESS\<close>, so the signatures accumulated before the failure
  are not reported.
\<close>

theorem error_reports_no_signatures:
  "publicKey a \<noteq> None \<longrightarrow>
     (status (fst (handleSend env a st)) = ERROR \<longrightarrow> txSigs (fst (handleSend env a st)) = [])
   \<and> (status (fst (handleMultiTokenSend env a st)) = ERROR \<longrightarrow>
        txSigs (fst (handleMultiTokenSend env a st)) = [])"
  by (auto simp: handleSend_def handleMultiTokenSend_def fail_session_def Let_def
      split: option.splits prod.splits sum.splits)

theorem error_reports_no_signatures_witness:
  "publicKey (example_app\<lparr>tokenType := SPL, splMint := ''Mint1111'', splDecimals := 6,
       parsedRecipients := [\<lparr>address = ''Alice111'', amount = ''0.5''\<rparr>]\<rparr>) \<noteq> None
   \<and> status (fst (handleSend example_env
        (example_app\<lparr>tokenType := SPL, splMint := ''Mint1111'', splDecimals := 6,
           parsedRecipients := [\<lparr>address = ''Alice111'', amount = ''0.5''\<rparr>]\<rparr>)
        (example_sys\<lparr>world := example_world\<lparr>reject_at := Some 1\<rparr>\<rparr>))) = ERROR
   \<and> txSigs (fst (handleSend example_env
        (example_app\<lparr>tokenType := SPL, splMint := ''Mint1111'', splDecimals := 6,
           parsedRecipients := [\<lparr>address = ''Alice111'', amount = ''0.5''\<rparr>]\<rparr>)
        (example_sys\<lparr>world := example_world\<lparr>reject_at := Some 1\<rparr>\<rparr>))) = []"
proof -
  let ?a = "example_app\<lparr>tokenType := SPL, splMint := ''Mint1111'', splDecimals := 6,
       parsedRecipients := [\<lparr>address = ''Alice111'', amount = ''0.5''\<rparr>]\<rparr>"
  let ?st = "example_sys\<lparr>world := example_world\<lparr>reject_at := Some 1\<rparr>\<rparr>"
  have pk: "publicKey ?a \<noteq> None" by (simp add: example_app_def)
  have err: "status (fst (handleSend example_env ?a ?st)) = ERROR" by (simp add: run_defs example_defs)
  from error_reports_no_signatures[of ?a example_env ?st] pk err
  have "txSigs (fst (handleSend example_env ?a ?st)) = []" by blast
  then show ?thesis using pk err by blast
qed

text \<open>
  The claim as stated fails: in a multi-asset run to one recipient, the transfer of the
  first token is accepted and confirmed and the transfer of the second token is rejected;
  the run ends in \<open>ERROR\<close> with an empty signature list, although the signature of the
  first token's confirmed transfer has been accumulated.
\<close>

theorem confirmed_signature_not_reported:
  "status (fst (handleSend example_env
      (example_app\<lparr>tokenType := MULTI,
         parsedRecipients := [\<lparr>address = ''Alice111'', amount = ''0''\<rparr>],
         tokenAccounts :=
           [\<lparr>mint = ''MintAAAA'', decimals = 6, symbol = ''AAA'', selected = True,
              amountToSend = Some ''2'', programId = None\<rparr>,
            \<lparr>mint = ''MintBBBB'', decimals = 6, symbol = ''BBB'', selected = True,
              amountToSend = Some ''3'', programId = None\<rparr>]\<rparr>)
      (example_sys\<lparr>world := example_world\<lparr>reject_at := Some 1,
         accounts := [''ata:MintAAAA:Alice111'', ''ata:MintBBBB:Alice111'']\<rparr>\<rparr>))) = ERROR
   \<and> txSigs (fst (handleSend example_env
      (example_app\<lparr>tokenType := MULTI,
         parsedRecipients := [\<lparr>address = ''Alice111'', amount = ''0''\<rparr>],
         tokenAccounts :=
           [\<lparr>mint = ''MintAAAA'', decimals = 6, symbol = ''AAA'', selected = True,
              amountToSend = Some ''2'', programId = None\<rparr>,
            \<lparr>mint = ''MintBBBB'', decimals = 6, symbol = ''BBB'', selected = True,
              amountToSend = Some ''3'', programId = None\<rparr>]\<rparr>)
      (example_sys\<lparr>world := example_world\<lparr>reject_at := Some 1,
         accounts := [''ata:MintAAAA:Alice111'', ''ata:MintBBBB:Alice111'']\<rparr>\<rparr>))) = []
   \<and> events (snd (handleSend example_env
      (example_app\<lparr>tokenType := MULTI,
         parsedRecipients := [\<lparr>address = ''Alice111'', amount = ''0''\<rparr>],
         tokenAccounts :=
           [\<lparr>mint = ''MintAAAA'', decimals = 6, symbol = ''AAA'', selected = True,
              amountToSend = Some ''2'', programId = None\<rparr>,
            \<lparr>mint = ''MintBBBB'', decimals = 6, symbol = ''BBB'', selected = True,
              amountToSend = Some ''3'', programId = None\<rparr>]\<rparr>)
      (example_sys\<lparr>world := example_world\<lparr>reject_at := Some 1,
         accounts := [''ata:MintAAAA:Alice111'', ''ata:MintBBBB:Alice111'']\<rparr>\<rparr>)))
     = [Checked ''ata:MintAAAA:Alice111'' True, Planned 0 [] [1],
        Submitted Transfer 0 0 ''sig0'', Slept 700,
        Polled ''sig0'' (Inr (Some [Some \<lparr>err = None, confirmationStatus = Some ''confirmed''\<rparr>])),
        Awaited ''sig0'' \<lparr>success = True, error = None\<rparr>,
        Checked ''ata:MintBBBB:Alice111'' True, Planned 1 [] [1]]"
  by (simp add: run_defs example_defs)

text \<open>
  C1, evaluated at a failing input: one native transfer is accepted by the network, its
  status poll reports an execution error, the confirmation wait returns the failure
  result, and \<^verbatim>\<open>handleSend\<close> sets the phase \<open>SUCCESS\<close> all the same.
\<close>

theorem success_after_failed_confirmation:
  "fst (handleSend example_env
       (example_app\<lparr>parsedRecipients := [\<lparr>address = ''Alice111'', amount = ''0.5''\<rparr>]\<rparr>)
       (example_sys\<lparr>world := example_world\<lparr>tx_err := Some ''{InstructionError:[0,{Custom:1}]}''\<rparr>\<rparr>))
     = example_app\<lparr>parsedRecipients := [\<lparr>address = ''Alice111'', amount = ''0.5''\<rparr>],
         txSigs := [''sig0''], status := SUCCESS, statusMsg := MsgSent 1 0 0\<rparr>
   \<and> events (snd (handleSend example_env
       (example_app\<lparr>parsedRecipients := [\<lparr>address = ''Alice111'', amount = ''0.5''\<rparr>]\<rparr>)
       (example_sys\<lparr>world := example_world\<lparr>tx_err := Some ''{InstructionError:[0,{Custom:1}]}''\<rparr>\<rparr>)))
     = [Planned 0 [] [1], Submitted Transfer 0 0 ''sig0'',
        Polled ''sig0'' (Inr (Some [Some \<lparr>err = Some ''{InstructionError:[0,{Custom:1}]}'',
                                        confirmationStatus = Some ''confirmed''\<rparr>])),
        Awaited ''sig0'' (failed_result ''{InstructionError:[0,{Custom:1}]}'')]"
  by (simp add: run_defs example_defs)

section \<open>Properties of the amount conversion on binary64 numbers\<close>





























end
